theory Spec2Isabelle
  imports Complex_Main
begin

section \<open>Errors\<close>

text \<open>
  Every exception the modelled code can raise is a value. \<open>HTTPException\<close> carries the
  status code and the detail string of \<open>fastapi.HTTPException\<close>; the other constructors
  are the Python and SQLAlchemy exceptions that escape a handler unhandled.
\<close>

datatype error =
    HTTPException nat string
  | RequestValidationError
  | TypeError
  | AttributeError
  | KeyError
  | MultipleResultsFound
  | UnmappedInstanceError
  | DBAPIError

text \<open>\<open>Unauthorized\<close> is an HTTPException with status 401, \<open>NotFound\<close> one with
  status 404 (\<open>status.HTTP_401_UNAUTHORIZED\<close>, \<open>status.HTTP_404_NOT_FOUND\<close>).\<close>

fun unauthorized :: "error \<Rightarrow> bool" where
  "unauthorized (HTTPException s d) = (s = 401)"
| "unauthorized _ = False"

fun not_found :: "error \<Rightarrow> bool" where
  "not_found (HTTPException s d) = (s = 404)"
| "not_found _ = False"

section \<open>service/rate\_limiter.py\<close>

text \<open>
  \<open>RateLimiter\<close> keeps, per client, the list \<open>[window start, count]\<close>. The clock
  \<open>time.time()\<close> is a parameter of \<open>is_allowed\<close> (seconds, as a real number); the
  mutated instance is returned next to the answer.
\<close>

record 'c RateLimiter =
  requests :: "'c \<rightharpoonup> (real \<times> int)"
  max_requests :: int
  window_time :: real

definition RateLimiter_init :: "int \<Rightarrow> real \<Rightarrow> 'c RateLimiter" where
  "RateLimiter_init m w = \<lparr>requests = Map.empty, max_requests = m, window_time = w\<rparr>"

definition is_allowed :: "'c RateLimiter \<Rightarrow> 'c \<Rightarrow> real \<Rightarrow> bool \<times> 'c RateLimiter" where
  "is_allowed self client_id current_time =
     (case requests self client_id of
        None \<Rightarrow>
          (True, self\<lparr>requests := (requests self)(client_id \<mapsto> (current_time, 1))\<rparr>)
      | Some (last_request_time, request_count) \<Rightarrow>
          if current_time - last_request_time > window_time self
          then (True, self\<lparr>requests := (requests self)(client_id \<mapsto> (current_time, 1))\<rparr>)
          else if request_count < max_requests self
          then (True, self\<lparr>requests :=
                  (requests self)(client_id \<mapsto> (last_request_time, request_count + 1))\<rparr>)
          else (False, self))"

text \<open>The module-level singleton \<open>rate_limiter = RateLimiter(3, 120)\<close>.\<close>

definition rate_limiter :: "'c RateLimiter" where
  "rate_limiter = RateLimiter_init 3 120"

definition limit_allowed :: "'c RateLimiter \<Rightarrow> 'c \<Rightarrow> real \<Rightarrow> (error + bool) \<times> 'c RateLimiter" where
  "limit_allowed rl client_id current_time =
     (case is_allowed rl client_id current_time of
        (True, rl') \<Rightarrow> (Inr True, rl')
      | (False, rl') \<Rightarrow> (Inl (HTTPException 429 ''Too Many Requests''), rl'))"

text \<open>A sequence of requests against one limiter, each with its own clock reading.\<close>

fun serve :: "'c RateLimiter \<Rightarrow> ('c \<times> real) list \<Rightarrow> bool list \<times> 'c RateLimiter" where
  "serve rl [] = ([], rl)"
| "serve rl ((c, t) # rest) =
     (case is_allowed rl c t of
        (ok, rl') \<Rightarrow> (case serve rl' rest of (oks, rl'') \<Rightarrow> (ok # oks, rl'')))"

text \<open>The same sequence through the gate \<open>limit_allowed\<close>, the dependency of the routes:
  each request is answered True or with the 429 exception.\<close>

fun serve_limited ::
  "'c RateLimiter \<Rightarrow> ('c \<times> real) list \<Rightarrow> (error + bool) list \<times> 'c RateLimiter" where
  "serve_limited rl [] = ([], rl)"
| "serve_limited rl ((c, t) # rest) =
     (case limit_allowed rl c t of
        (res, rl') \<Rightarrow>
          (case serve_limited rl' rest of (ress, rl'') \<Rightarrow> (res # ress, rl'')))"

section \<open>entity/models.py\<close>

text \<open>
  The two tables. Datetimes are microseconds since the epoch, dates are day numbers; a
  nullable column is an option. Field names carry the table's name where both tables have
  the column.
\<close>

record User =
  user_id :: int
  user_email :: string
  passwd :: string
  salt :: string
  is_active :: bool
  otp :: "int option"
  image :: "string option"
  user_created_at :: int
  user_modified_at :: int

record Contact =
  contact_id :: int
  first_name :: "string option"
  last_name :: "string option"
  contact_email :: "string option"
  birth_date :: int
  created_by :: int
  contact_created_at :: int
  contact_modified_at :: int

text \<open>
  The relational store: the rows of each table in storage order. An ORM object loaded in a
  session is written back by primary key on \<open>commit\<close>; \<open>refresh\<close> then reloads the same row.
\<close>

record Database =
  users :: "User list"
  contacts :: "Contact list"

definition commit_user :: "Database \<Rightarrow> User \<Rightarrow> Database" where
  "commit_user db u =
     db\<lparr>users := map (\<lambda>r. if user_id r = user_id u then u else r) (users db)\<rparr>"

definition commit_contact :: "Database \<Rightarrow> Contact \<Rightarrow> Database" where
  "commit_contact db c =
     db\<lparr>contacts := map (\<lambda>r. if contact_id r = contact_id c then c else r) (contacts db)\<rparr>"

text \<open>\<open>Result.scalar_one_or_none()\<close>: no row is None, one row is that row, more raise.\<close>

fun scalar_one_or_none :: "'a list \<Rightarrow> error + 'a option" where
  "scalar_one_or_none [] = Inr None"
| "scalar_one_or_none [x] = Inr (Some x)"
| "scalar_one_or_none (x # y # zs) = Inl MultipleResultsFound"

section \<open>Values of a token's claim set\<close>

text \<open>
  A JWT payload is a dictionary from claim names to values. The library calls
  \<open>jwt.encode\<close> and \<open>jwt.decode\<close> (python-jose, with the process secret) are parameters
  \<open>enc\<close> and \<open>dec\<close> of the functions that call them; \<open>dec\<close> returning None is the
  library raising \<open>JWTError\<close> (bad signature, expired, malformed).
\<close>

datatype pyval = Str string | Num int | Datetime int | Null

type_synonym payload = "string \<rightharpoonup> pyval"

text \<open>\<open>payload[key]\<close>: a missing key raises KeyError.\<close>

definition getitem :: "payload \<Rightarrow> string \<Rightarrow> error + pyval" where
  "getitem p k = (case p k of None \<Rightarrow> Inl KeyError | Some v \<Rightarrow> Inr v)"

text \<open>\<open>timedelta(minutes=m)\<close> in microseconds.\<close>

definition timedelta_minutes :: "int \<Rightarrow> int" where
  "timedelta_minutes m = m * 60000000"

section \<open>repository/user.py\<close>

text \<open>
  \<open>find_user\<close> filters the users by \<open>email\<close>. The caller may pass whatever the token's
  \<open>sub\<close> claim holds: a string is compared with the column, None matches no row (the
  column is not nullable), and any other value is rejected by the database driver.
\<close>

fun find_user :: "pyval \<Rightarrow> Database \<Rightarrow> error + User option" where
  "find_user (Str email) db = scalar_one_or_none (filter (\<lambda>u. user_email u = email) (users db))"
| "find_user Null db = scalar_one_or_none []"
| "find_user (Num n) db = Inl DBAPIError"
| "find_user (Datetime t) db = Inl DBAPIError"

text \<open>\<open>random.randint(a, b)\<close>: a value of \<open>a..b\<close>, both ends included, chosen by the
  random source \<open>r\<close>.\<close>

definition randint :: "int \<Rightarrow> int \<Rightarrow> nat \<Rightarrow> int" where
  "randint a b r = a + int (r mod nat (b - a + 1))"

text \<open>\<open>update_otp\<close>: \<open>not otp\<close> holds for None and for 0. Returns the OTP, the mutated
  user object and the store after the commit.\<close>

definition update_otp :: "User \<Rightarrow> Database \<Rightarrow> int option \<Rightarrow> nat \<Rightarrow> int \<times> User \<times> Database" where
  "update_otp user db otp_arg r =
     (let otp' = (case otp_arg of
                    None \<Rightarrow> randint 100000 999999 r
                  | Some v \<Rightarrow> if v = 0 then randint 100000 999999 r else v);
          user' = user\<lparr>otp := Some otp'\<rparr>
      in (otp', user', commit_user db user'))"

definition user_activation :: "User \<Rightarrow> Database \<Rightarrow> bool \<Rightarrow> User \<times> Database" where
  "user_activation user db active =
     (let user' = user\<lparr>is_active := active\<rparr> in (user', commit_user db user'))"

section \<open>service/auth.py\<close>

definition ACCESS_TOKEN_EXPIRE_MINUTES :: int where
  "ACCESS_TOKEN_EXPIRE_MINUTES = 30"

definition REFRESH_TOKEN_EXPIRATION :: int where
  "REFRESH_TOKEN_EXPIRATION = 1440"

record 'tok Token =
  access_token :: 'tok
  refresh_token :: 'tok
  token_type :: string

text \<open>\<open>get_user(db, email)\<close>: the user when \<open>find_user\<close> gives one, else None.\<close>

definition get_user :: "Database \<Rightarrow> pyval \<Rightarrow> error + User option" where
  "get_user db email =
     (case find_user email db of
        Inl e \<Rightarrow> Inl e
      | Inr user \<Rightarrow> (case user of Some u \<Rightarrow> Inr (Some u) | None \<Rightarrow> Inr None))"

text \<open>\<open>verify_password\<close> (passlib's \<open>pwd_context.verify\<close>) is a parameter.\<close>

definition authenticate_user ::
  "(string \<Rightarrow> string \<Rightarrow> bool) \<Rightarrow> Database \<Rightarrow> string \<Rightarrow> string \<Rightarrow> error + User option" where
  "authenticate_user verify_password db email password =
     (case get_user db (Str email) of
        Inl e \<Rightarrow> Inl e
      | Inr None \<Rightarrow> Inr None
      | Inr (Some user) \<Rightarrow>
          if \<not> verify_password password (passwd user) then Inr None else Inr (Some user))"

text \<open>
  \<open>create_access_token\<close> and \<open>create_refresh_token\<close>. \<open>expires_delta\<close> is a timedelta in
  microseconds or None; \<open>if expires_delta\<close> is false for None and for a zero timedelta.
  \<open>now_exp\<close> and \<open>now_iat\<close> are the two readings of \<open>datetime.utcnow()\<close>, in the order
  the code takes them.
\<close>

definition create_access_token ::
  "(payload \<Rightarrow> 'tok) \<Rightarrow> payload \<Rightarrow> int option \<Rightarrow> int \<Rightarrow> int \<Rightarrow> 'tok" where
  "create_access_token enc data expires_delta now_exp now_iat =
     (let expire = (case expires_delta of
                      Some d \<Rightarrow> if d \<noteq> 0 then now_exp + d else now_exp + timedelta_minutes 15
                    | None \<Rightarrow> now_exp + timedelta_minutes 15);
          to_encode = data(''exp'' \<mapsto> Datetime expire, ''iat'' \<mapsto> Datetime now_iat,
                           ''scope'' \<mapsto> Str ''access_token'')
      in enc to_encode)"

definition create_refresh_token ::
  "(payload \<Rightarrow> 'tok) \<Rightarrow> payload \<Rightarrow> int option \<Rightarrow> int \<Rightarrow> int \<Rightarrow> 'tok" where
  "create_refresh_token enc data expires_delta now_exp now_iat =
     (let expire = (case expires_delta of
                      Some d \<Rightarrow> if d \<noteq> 0 then now_exp + d else now_exp + timedelta_minutes 1000
                    | None \<Rightarrow> now_exp + timedelta_minutes 1000);
          to_encode = data(''exp'' \<mapsto> Datetime expire, ''iat'' \<mapsto> Datetime now_iat,
                           ''scope'' \<mapsto> Str ''refresh_token'')
      in enc to_encode)"

definition get_current_user :: "('tok \<Rightarrow> payload option) \<Rightarrow> 'tok \<Rightarrow> Database \<Rightarrow> error + User" where
  "get_current_user dec token db =
     (let credentials_exception = HTTPException 401 ''Could not validate credentials'' in
      case dec token of
        None \<Rightarrow> Inl credentials_exception
      | Some payload \<Rightarrow>
          (case getitem payload ''scope'' of
             Inl e \<Rightarrow> Inl e
           | Inr scope \<Rightarrow>
               if scope = Str ''access_token'' then
                 (case getitem payload ''sub'' of
                    Inl e \<Rightarrow> Inl e
                  | Inr email \<Rightarrow>
                      if email = Null then Inl credentials_exception
                      else (case get_user db email of
                              Inl e \<Rightarrow> Inl e
                            | Inr None \<Rightarrow> Inl credentials_exception
                            | Inr (Some user) \<Rightarrow> Inr user))
               else Inl credentials_exception))"

definition decode_refresh_token :: "('tok \<Rightarrow> payload option) \<Rightarrow> 'tok \<Rightarrow> error + pyval" where
  "decode_refresh_token dec token =
     (case dec token of
        None \<Rightarrow> Inl (HTTPException 401 ''Could not validate credentials'')
      | Some payload \<Rightarrow>
          (case getitem payload ''scope'' of
             Inl e \<Rightarrow> Inl e
           | Inr scope \<Rightarrow>
               if scope = Str ''refresh_token'' then
                 (case getitem payload ''sub'' of Inl e \<Rightarrow> Inl e | Inr email \<Rightarrow> Inr email)
               else Inl (HTTPException 401 ''Invalid scope for token'')))"

text \<open>
  \<open>user.is_active\<close> on the result of \<open>authenticate_user\<close>, which may be None: reading an
  attribute of None raises AttributeError.
\<close>

definition getattr_is_active :: "User option \<Rightarrow> error + bool" where
  "getattr_is_active user = (case user of None \<Rightarrow> Inl AttributeError | Some u \<Rightarrow> Inr (is_active u))"

text \<open>
  \<open>generate_token\<close>. The guard is \<open>not user and not user.is_active\<close>: the right operand
  is evaluated only when \<open>not user\<close> holds. \<open>r\<close> is the random source of \<open>update_otp\<close>,
  the four clock readings are those of the two token constructors. Returns the token pair
  and the store after the OTP commit.
\<close>

definition generate_token ::
  "(string \<Rightarrow> string \<Rightarrow> bool) \<Rightarrow> (payload \<Rightarrow> 'tok) \<Rightarrow> Database \<Rightarrow> string \<Rightarrow> string \<Rightarrow> nat \<Rightarrow>
     int \<Rightarrow> int \<Rightarrow> int \<Rightarrow> int \<Rightarrow> error + ('tok Token \<times> Database)" where
  "generate_token verify_password enc db username password r t1 t2 t3 t4 =
     (case authenticate_user verify_password db username password of
        Inl e \<Rightarrow> Inl e
      | Inr user \<Rightarrow>
          (case (if user = None
                 then (case getattr_is_active user of Inl e \<Rightarrow> Inl e | Inr a \<Rightarrow> Inr (\<not> a))
                 else Inr False) of
             Inl e \<Rightarrow> Inl e
           | Inr True \<Rightarrow> Inl (HTTPException 401 ''Incorrect email or password'')
           | Inr False \<Rightarrow>
               (case getattr_is_active user of
                  Inl e \<Rightarrow> Inl e
                | Inr True \<Rightarrow>
                    (case user of
                       None \<Rightarrow> Inl AttributeError
                     | Some u \<Rightarrow>
                         (case update_otp u db None r of
                            (new_otp, u', db') \<Rightarrow>
                              Inr (\<lparr>access_token =
                                       create_access_token enc [''sub'' \<mapsto> Str (user_email u')]
                                         (Some (timedelta_minutes ACCESS_TOKEN_EXPIRE_MINUTES)) t1 t2,
                                     refresh_token =
                                       create_refresh_token enc [''sub'' \<mapsto> Str (user_email u')]
                                         (Some (timedelta_minutes REFRESH_TOKEN_EXPIRATION)) t3 t4,
                                     token_type = ''bearer''\<rparr>, db')))
                | Inr False \<Rightarrow> Inl (HTTPException 401 ''User is not activated''))))"

definition refresh_user_token ::
  "('tok \<Rightarrow> payload option) \<Rightarrow> (payload \<Rightarrow> 'tok) \<Rightarrow> 'tok \<Rightarrow> Database \<Rightarrow>
     int \<Rightarrow> int \<Rightarrow> int \<Rightarrow> int \<Rightarrow> error + 'tok Token" where
  "refresh_user_token dec enc token db t1 t2 t3 t4 =
     (case decode_refresh_token dec token of
        Inl e \<Rightarrow> Inl e
      | Inr email \<Rightarrow>
          (case find_user email db of
             Inl e \<Rightarrow> Inl e
           | Inr user \<Rightarrow>
               if (case user of None \<Rightarrow> False | Some u \<Rightarrow> is_active u) then
                 Inr \<lparr>access_token = create_access_token enc [''sub'' \<mapsto> email] None t1 t2,
                      refresh_token = create_refresh_token enc [''sub'' \<mapsto> email] None t3 t4,
                      token_type = ''bearer''\<rparr>
               else Inl (HTTPException 401 ''Invalid token'')))"

text \<open>
  \<open>activate_user\<close>. On an OTP mismatch the code builds an HTTPException without raising it
  and falls through to the final \<open>raise\<close>, which is also where an unknown email ends.
\<close>

definition activate_user :: "string \<Rightarrow> int \<Rightarrow> Database \<Rightarrow> error + (User \<times> Database)" where
  "activate_user user_mail otp_arg db =
     (case find_user (Str user_mail) db of
        Inl e \<Rightarrow> Inl e
      | Inr user \<Rightarrow>
          (case user of
             Some u \<Rightarrow>
               if otp u = Some otp_arg then Inr (user_activation u db True)
               else Inl (HTTPException 401 ''User is not found'')
           | None \<Rightarrow> Inl (HTTPException 401 ''User is not found'')))"

section \<open>schemas/contact.py\<close>

text \<open>\<open>ContactEditSchema\<close>: every field is optional and defaults to None.\<close>

record ContactEditSchema =
  edit_first_name :: "string option"
  edit_last_name :: "string option"
  edit_email :: "string option"
  edit_birth_date :: "int option"

text \<open>
  Iterating a pydantic model yields its \<open>(field, value)\<close> pairs in declaration order. A pair
  with a value that is not None is an \<open>attr\<close>; a pair whose value is None is None.
\<close>

datatype attr =
    Set_first_name string
  | Set_last_name string
  | Set_email string
  | Set_birth_date int

definition body_items :: "ContactEditSchema \<Rightarrow> attr option list" where
  "body_items body =
     [map_option Set_first_name (edit_first_name body),
      map_option Set_last_name (edit_last_name body),
      map_option Set_email (edit_email body),
      map_option Set_birth_date (edit_birth_date body)]"

section \<open>repository/contact.py\<close>

text \<open>
  The SQL operator \<open>LIKE\<close> of the database is the parameter \<open>like value pattern\<close>; a NULL
  column never matches. Every statement starts from
  \<open>select(Contact).where(Contact.created_by == user_id)\<close>.
\<close>

definition owned_by :: "int \<Rightarrow> Database \<Rightarrow> Contact list" where
  "owned_by uid db = filter (\<lambda>c. created_by c = uid) (contacts db)"

text \<open>A negative LIMIT or OFFSET is an error of the database.\<close>

definition get_contacts :: "int \<Rightarrow> int \<Rightarrow> Database \<Rightarrow> int \<Rightarrow> error + Contact list" where
  "get_contacts limit offset db uid =
     (if limit < 0 \<or> offset < 0 then Inl DBAPIError
      else Inr (take (nat limit) (drop (nat offset) (owned_by uid db))))"

definition get_contact :: "int \<Rightarrow> Database \<Rightarrow> int \<Rightarrow> error + Contact option" where
  "get_contact cid db uid =
     scalar_one_or_none (filter (\<lambda>c. contact_id c = cid) (owned_by uid db))"

definition column_like :: "(string \<Rightarrow> string \<Rightarrow> bool) \<Rightarrow> string option \<Rightarrow> string \<Rightarrow> bool" where
  "column_like like col pattern = (case col of None \<Rightarrow> False | Some v \<Rightarrow> like v pattern)"

definition get_contact_by_name ::
  "(string \<Rightarrow> string \<Rightarrow> bool) \<Rightarrow> string \<Rightarrow> Database \<Rightarrow> int \<Rightarrow> Contact list" where
  "get_contact_by_name like name_query db uid =
     filter (\<lambda>c. column_like like (first_name c) (''%'' @ name_query @ ''%'')
                \<or> column_like like (last_name c) (''%'' @ name_query @ ''%''))
       (owned_by uid db)"

definition get_contact_by_mail ::
  "(string \<Rightarrow> string \<Rightarrow> bool) \<Rightarrow> string \<Rightarrow> Database \<Rightarrow> int \<Rightarrow> Contact list" where
  "get_contact_by_mail like mail_query db uid =
     filter (\<lambda>c. column_like like (contact_email c) (''%'' @ mail_query @ ''%''))
       (owned_by uid db)"

text \<open>\<open>today\<close> is \<open>date.today()\<close>; \<open>BETWEEN\<close> includes both ends.\<close>

definition get_birthday_list :: "Database \<Rightarrow> int \<Rightarrow> int \<Rightarrow> Contact list" where
  "get_birthday_list db uid today =
     filter (\<lambda>c. today \<le> birth_date c \<and> birth_date c \<le> today + 7) (owned_by uid db)"

text \<open>\<open>setattr(contact, field, value)\<close>; the object may be None, and None has no
  attribute to set.\<close>

fun setattr_contact :: "Contact option \<Rightarrow> attr \<Rightarrow> error + Contact option" where
  "setattr_contact None a = Inl AttributeError"
| "setattr_contact (Some c) (Set_first_name v) = Inr (Some (c\<lparr>first_name := Some v\<rparr>))"
| "setattr_contact (Some c) (Set_last_name v) = Inr (Some (c\<lparr>last_name := Some v\<rparr>))"
| "setattr_contact (Some c) (Set_email v) = Inr (Some (c\<lparr>contact_email := Some v\<rparr>))"
| "setattr_contact (Some c) (Set_birth_date v) = Inr (Some (c\<lparr>birth_date := v\<rparr>))"

text \<open>The loop \<open>for field, value in body: if value is not None: setattr(...)\<close>.\<close>

fun edit_loop :: "Contact option \<Rightarrow> attr option list \<Rightarrow> error + Contact option" where
  "edit_loop contact [] = Inr contact"
| "edit_loop contact (None # rest) = edit_loop contact rest"
| "edit_loop contact (Some a # rest) =
     (case setattr_contact contact a of
        Inl e \<Rightarrow> Inl e
      | Inr contact' \<Rightarrow> edit_loop contact' rest)"

text \<open>\<open>now\<close> is \<open>datetime.now(timezone.utc)\<close>. Returns the contact and the store after
  the commit.\<close>

definition edit_contact ::
  "int \<Rightarrow> ContactEditSchema \<Rightarrow> Database \<Rightarrow> int \<Rightarrow> int \<Rightarrow> error + (Contact \<times> Database)" where
  "edit_contact cid body db uid now =
     (case get_contact cid db uid of
        Inl e \<Rightarrow> Inl e
      | Inr contact \<Rightarrow>
          (case edit_loop contact (body_items body) of
             Inl e \<Rightarrow> Inl e
           | Inr contact1 \<Rightarrow>
               (case contact1 of
                  None \<Rightarrow> Inl AttributeError
                | Some c \<Rightarrow>
                    (let c' = c\<lparr>contact_modified_at := now\<rparr>
                     in Inr (c', commit_contact db c')))))"

text \<open>\<open>Session.delete(None)\<close> raises UnmappedInstanceError.\<close>

definition delete_contact :: "int \<Rightarrow> Database \<Rightarrow> int \<Rightarrow> error + (Contact \<times> Database)" where
  "delete_contact cid db uid =
     (case get_contact cid db uid of
        Inl e \<Rightarrow> Inl e
      | Inr contact \<Rightarrow>
          (case contact of
             None \<Rightarrow> Inl UnmappedInstanceError
           | Some c \<Rightarrow>
               Inr (c, db\<lparr>contacts := filter (\<lambda>r. contact_id r \<noteq> contact_id c) (contacts db)\<rparr>)))"

text \<open>
  The store after a repository operation on \<open>db\<close>. An operation that raised has committed
  nothing: in the functions above every raise comes before \<open>db.commit()\<close>, and the session
  of \<open>conf/db.py\<close> is rolled back and closed on an exception.
\<close>

definition store_after :: "Database \<Rightarrow> error + ('a \<times> Database) \<Rightarrow> Database" where
  "store_after db res = (case res of Inl e \<Rightarrow> db | Inr (x, db') \<Rightarrow> db')"

section \<open>routers/contact.py\<close>

text \<open>
  A call of the repository's \<open>get_contact(contact_id, db, user_id)\<close> by position. The
  parameter \<open>user_id\<close> has no default: a call that does not supply it raises TypeError
  before the body runs.
\<close>

definition call_get_contact :: "int \<Rightarrow> Database \<Rightarrow> int option \<Rightarrow> error + Contact option" where
  "call_get_contact cid db user_id_arg =
     (case user_id_arg of None \<Rightarrow> Inl TypeError | Some uid \<Rightarrow> get_contact cid db uid)"

text \<open>What \<open>GET /contact/{id}\<close> returns: the contact, or a bare status-code number.\<close>

datatype get_contact_response = Found Contact | Status nat

text \<open>\<open>list_contacts\<close>: \<open>limit = Query(10, ge=10, le=500)\<close>, \<open>offset = Query(0, ge=0)\<close>.\<close>

definition route_list_contacts ::
  "('tok \<Rightarrow> payload option) \<Rightarrow> int \<Rightarrow> int \<Rightarrow> Database \<Rightarrow> 'tok \<Rightarrow> error + Contact list" where
  "route_list_contacts dec limit offset db token =
     (if limit < 10 \<or> limit > 500 \<or> offset < 0 then Inl RequestValidationError
      else (case get_current_user dec token db of
              Inl e \<Rightarrow> Inl e
            | Inr user \<Rightarrow> get_contacts limit offset db (user_id user)))"

definition route_birthday_list ::
  "('tok \<Rightarrow> payload option) \<Rightarrow> Database \<Rightarrow> 'tok \<Rightarrow> int \<Rightarrow> error + Contact list" where
  "route_birthday_list dec db token today =
     (case get_current_user dec token db of
        Inl e \<Rightarrow> Inl e
      | Inr user \<Rightarrow> Inr (get_birthday_list db (user_id user) today))"

text \<open>\<open>get_contact\<close> of the router: it calls \<open>repo_contact.get_contact(id_, db)\<close>, with
  two arguments, and does not resolve the token to a user.\<close>

definition route_get_contact :: "int \<Rightarrow> Database \<Rightarrow> 'tok \<Rightarrow> error + get_contact_response" where
  "route_get_contact cid db token =
     (case call_get_contact cid db None of
        Inl e \<Rightarrow> Inl e
      | Inr contact \<Rightarrow>
          (case contact of None \<Rightarrow> Inr (Status 303) | Some c \<Rightarrow> Inr (Found c)))"

definition route_edit_contact ::
  "('tok \<Rightarrow> payload option) \<Rightarrow> int \<Rightarrow> ContactEditSchema \<Rightarrow> Database \<Rightarrow> 'tok \<Rightarrow> int \<Rightarrow>
     error + (Contact \<times> Database)" where
  "route_edit_contact dec cid body db token now =
     (case get_current_user dec token db of
        Inl e \<Rightarrow> Inl e
      | Inr user \<Rightarrow> edit_contact cid body db (user_id user) now)"

definition route_delete_contact ::
  "('tok \<Rightarrow> payload option) \<Rightarrow> int \<Rightarrow> Database \<Rightarrow> 'tok \<Rightarrow> error + (Contact \<times> Database)" where
  "route_delete_contact dec cid db token =
     (case get_current_user dec token db of
        Inl e \<Rightarrow> Inl e
      | Inr user \<Rightarrow> delete_contact cid db (user_id user))"

definition route_search_name ::
  "('tok \<Rightarrow> payload option) \<Rightarrow> (string \<Rightarrow> string \<Rightarrow> bool) \<Rightarrow> string option \<Rightarrow> Database \<Rightarrow> 'tok \<Rightarrow>
     error + Contact list" where
  "route_search_name dec like query db token =
     (case query of
        None \<Rightarrow> Inr []
      | Some q \<Rightarrow>
          (case get_current_user dec token db of
             Inl e \<Rightarrow> Inl e
           | Inr user \<Rightarrow> Inr (get_contact_by_name like q db (user_id user))))"

definition route_search_mail ::
  "('tok \<Rightarrow> payload option) \<Rightarrow> (string \<Rightarrow> string \<Rightarrow> bool) \<Rightarrow> string option \<Rightarrow> Database \<Rightarrow> 'tok \<Rightarrow>
     error + Contact list" where
  "route_search_mail dec like query db token =
     (case query of
        None \<Rightarrow> Inr []
      | Some q \<Rightarrow>
          (case get_current_user dec token db of
             Inl e \<Rightarrow> Inl e
           | Inr user \<Rightarrow> Inr (get_contact_by_mail like q db (user_id user))))"

section \<open>Example data\<close>

text \<open>
  The fixture of the specification's end-to-end example: user A (active) with the contact
  Ann Lee, user B (not activated) with the contact Bob Roe; day 100 is "today", Ann's
  birthday is three days ahead, Bob's thirty. In the examples a token is its own payload:
  \<open>enc\<close> is the identity and \<open>dec\<close> is \<open>Some\<close>; the stored password hash verifies
  exactly the password equal to it.
\<close>

definition user_a :: User where
  "user_a = \<lparr>user_id = 1, user_email = ''a@example.com'', passwd = ''pw-a'', salt = ''s'',
              is_active = True, otp = Some 123456, image = None,
              user_created_at = 0, user_modified_at = 0\<rparr>"

definition user_b :: User where
  "user_b = \<lparr>user_id = 2, user_email = ''b@example.com'', passwd = ''pw-b'', salt = ''s'',
              is_active = False, otp = Some 654321, image = None,
              user_created_at = 0, user_modified_at = 0\<rparr>"

definition contact_ann :: Contact where
  "contact_ann = \<lparr>contact_id = 1, first_name = Some ''Ann'', last_name = Some ''Lee'',
                   contact_email = Some ''ann@example.com'', birth_date = 103, created_by = 1,
                   contact_created_at = 0, contact_modified_at = 0\<rparr>"

definition contact_bob :: Contact where
  "contact_bob = \<lparr>contact_id = 2, first_name = Some ''Bob'', last_name = Some ''Roe'',
                   contact_email = Some ''bob@example.com'', birth_date = 130, created_by = 2,
                   contact_created_at = 0, contact_modified_at = 0\<rparr>"

definition example_db :: Database where
  "example_db = \<lparr>users = [user_a, user_b], contacts = [contact_ann, contact_bob]\<rparr>"

definition access_a :: payload where
  "access_a = [''sub'' \<mapsto> Str ''a@example.com'', ''scope'' \<mapsto> Str ''access_token'']"

definition refresh_a :: payload where
  "refresh_a = [''sub'' \<mapsto> Str ''a@example.com'', ''scope'' \<mapsto> Str ''refresh_token'']"

definition like_exact :: "string \<Rightarrow> string \<Rightarrow> bool" where
  "like_exact v pattern = (pattern = ''%'' @ v @ ''%'')"

definition verify_equal :: "string \<Rightarrow> string \<Rightarrow> bool" where
  "verify_equal plain hashed = (plain = hashed)"

section \<open>Properties of the rate limiter\<close>

lemma is_allowed_new:
  "requests rl c = None \<Longrightarrow>
     is_allowed rl c t = (True, rl\<lparr>requests := (requests rl)(c \<mapsto> (t, 1))\<rparr>)"
  by (simp add: is_allowed_def)

lemma is_allowed_reset:
  "requests rl c = Some (s, n) \<Longrightarrow> t - s > window_time rl \<Longrightarrow>
     is_allowed rl c t = (True, rl\<lparr>requests := (requests rl)(c \<mapsto> (t, 1))\<rparr>)"
  by (simp add: is_allowed_def)

lemma is_allowed_count:
  "requests rl c = Some (s, n) \<Longrightarrow> \<not> t - s > window_time rl \<Longrightarrow> n < max_requests rl \<Longrightarrow>
     is_allowed rl c t = (True, rl\<lparr>requests := (requests rl)(c \<mapsto> (s, n + 1))\<rparr>)"
  by (simp add: is_allowed_def)

lemma is_allowed_deny:
  "requests rl c = Some (s, n) \<Longrightarrow> \<not> t - s > window_time rl \<Longrightarrow> \<not> n < max_requests rl \<Longrightarrow>
     is_allowed rl c t = (False, rl)"
  by (simp add: is_allowed_def)

lemma serve_four:
  assumes "t1 \<le> t2" "t2 \<le> t3" "t3 \<le> t4" "t4 - t1 \<le> 10"
  shows "serve (rate_limiter :: 'c RateLimiter) [(c, t1), (c, t2), (c, t3), (c, t4)] =
           ([True, True, True, False],
            (rate_limiter :: 'c RateLimiter)\<lparr>requests := [c \<mapsto> (t1, 3)]\<rparr>)"
  using assms by (simp add: is_allowed_def rate_limiter_def RateLimiter_init_def)

lemma limit_allowed_allow:
  "fst (is_allowed rl c t) \<Longrightarrow> limit_allowed rl c t = (Inr True, snd (is_allowed rl c t))"
  by (cases "is_allowed rl c t") (simp add: limit_allowed_def)

lemma limit_allowed_deny:
  "\<not> fst (is_allowed rl c t) \<Longrightarrow>
     limit_allowed rl c t = (Inl (HTTPException 429 ''Too Many Requests''), snd (is_allowed rl c t))"
  by (cases "is_allowed rl c t") (simp add: limit_allowed_def)

lemma serve_burst:
  assumes "max_requests rl0 = 3" "window_time rl0 = 120" "requests rl0 c = None"
    and "t1 \<le> t2" "t2 \<le> t3" "t3 \<le> t4" "t4 - t1 \<le> 10"
  shows "serve rl0 [(c, t1), (c, t2), (c, t3), (c, t4)] =
           ([True, True, True, False], rl0\<lparr>requests := (requests rl0)(c \<mapsto> (t1, 3))\<rparr>)"
  using assms by (simp add: is_allowed_def)

lemma serve_limited_burst:
  assumes "max_requests rl0 = 3" "window_time rl0 = 120" "requests rl0 c = None"
    and "t1 \<le> t2" "t2 \<le> t3" "t3 \<le> t4" "t4 - t1 \<le> 10"
  shows "serve_limited rl0 [(c, t1), (c, t2), (c, t3), (c, t4)] =
           ([Inr True, Inr True, Inr True, Inl (HTTPException 429 ''Too Many Requests'')],
            rl0\<lparr>requests := (requests rl0)(c \<mapsto> (t1, 3))\<rparr>)"
  using assms by (simp add: limit_allowed_def is_allowed_def)

lemma after_window:
  assumes "window_time rl0 = 120" "t5 - t1 > 120"
  shows "is_allowed (rl0\<lparr>requests := (requests rl0)(c \<mapsto> (t1, 3))\<rparr>) c t5 =
           (True, rl0\<lparr>requests := (requests rl0)(c \<mapsto> (t5, 1))\<rparr>)"
    and "limit_allowed (rl0\<lparr>requests := (requests rl0)(c \<mapsto> (t1, 3))\<rparr>) c t5 =
           (Inr True, rl0\<lparr>requests := (requests rl0)(c \<mapsto> (t5, 1))\<rparr>)"
  using assms by (simp_all add: limit_allowed_def is_allowed_def)

text \<open>
  C2. The limiter is the fixed-window algorithm: a client without a record gets the record
  (start = T, count = 1) and is allowed; when T - start exceeds the window the record is
  reset to (T, 1) and the request is allowed; otherwise a count below the maximum is
  incremented and the request is allowed; otherwise the request is denied and nothing
  changes. With the configured instance (3 requests per 120 s), four requests of one client
  within 10 seconds are answered allowed, allowed, allowed, denied (the fourth raises
  429 in \<open>limit_allowed\<close>), and a request of that client more than 120 s after the window
  start is allowed again with the record reset to count 1. The gate \<open>limit_allowed\<close>
  answers True exactly when \<open>is_allowed\<close> allows and raises 429 otherwise, and in both
  cases leaves the limiter as \<open>is_allowed\<close> left it. The burst behaves so on every limiter
  of that configuration that holds no record of the client, whatever it holds of others:
  through the gate the answers are True, True, True, 429, the record is then (first request
  time, 3), and the late request is answered True with the record (its time, 1).
\<close>

theorem rate_limiter_fixed_window:
  fixes rl :: "'c RateLimiter" and c :: 'c
  shows
    "(requests rl c = None \<longrightarrow>
        is_allowed rl c t = (True, rl\<lparr>requests := (requests rl)(c \<mapsto> (t, 1))\<rparr>))
     \<and> (requests rl c = Some (s, n) \<and> t - s > window_time rl \<longrightarrow>
        is_allowed rl c t = (True, rl\<lparr>requests := (requests rl)(c \<mapsto> (t, 1))\<rparr>))
     \<and> (requests rl c = Some (s, n) \<and> \<not> t - s > window_time rl \<and> n < max_requests rl \<longrightarrow>
        is_allowed rl c t = (True, rl\<lparr>requests := (requests rl)(c \<mapsto> (s, n + 1))\<rparr>))
     \<and> (requests rl c = Some (s, n) \<and> \<not> t - s > window_time rl \<and> \<not> n < max_requests rl \<longrightarrow>
        is_allowed rl c t = (False, rl))
     \<and> (t1 \<le> t2 \<and> t2 \<le> t3 \<and> t3 \<le> t4 \<and> t4 - t1 \<le> 10 \<and> t5 - t1 > 120 \<longrightarrow>
        (\<exists>rl4. serve (rate_limiter :: 'c RateLimiter) [(c, t1), (c, t2), (c, t3), (c, t4)] =
                  ([True, True, True, False], rl4)
              \<and> requests rl4 c = Some (t1, 3)
              \<and> fst (limit_allowed rl4 c t4) = Inl (HTTPException 429 ''Too Many Requests'')
              \<and> fst (is_allowed rl4 c t5) = True
              \<and> requests (snd (is_allowed rl4 c t5)) c = Some (t5, 1)))
     \<and> (fst (is_allowed rl c t) \<longrightarrow>
        limit_allowed rl c t = (Inr True, snd (is_allowed rl c t)))
     \<and> (\<not> fst (is_allowed rl c t) \<longrightarrow>
        limit_allowed rl c t
          = (Inl (HTTPException 429 ''Too Many Requests''), snd (is_allowed rl c t)))
     \<and> max_requests (rate_limiter :: 'c RateLimiter) = 3
     \<and> window_time (rate_limiter :: 'c RateLimiter) = 120
     \<and> requests (rate_limiter :: 'c RateLimiter) c = None
     \<and> (max_requests rl0 = 3 \<and> window_time rl0 = 120 \<and> requests rl0 c = None
          \<and> t1 \<le> t2 \<and> t2 \<le> t3 \<and> t3 \<le> t4 \<and> t4 - t1 \<le> 10 \<and> t5 - t1 > 120 \<longrightarrow>
        serve rl0 [(c, t1), (c, t2), (c, t3), (c, t4)]
          = ([True, True, True, False], rl0\<lparr>requests := (requests rl0)(c \<mapsto> (t1, 3))\<rparr>)
        \<and> serve_limited rl0 [(c, t1), (c, t2), (c, t3), (c, t4)]
          = ([Inr True, Inr True, Inr True, Inl (HTTPException 429 ''Too Many Requests'')],
             rl0\<lparr>requests := (requests rl0)(c \<mapsto> (t1, 3))\<rparr>)
        \<and> is_allowed (rl0\<lparr>requests := (requests rl0)(c \<mapsto> (t1, 3))\<rparr>) c t5
          = (True, rl0\<lparr>requests := (requests rl0)(c \<mapsto> (t5, 1))\<rparr>)
        \<and> limit_allowed (rl0\<lparr>requests := (requests rl0)(c \<mapsto> (t1, 3))\<rparr>) c t5
          = (Inr True, rl0\<lparr>requests := (requests rl0)(c \<mapsto> (t5, 1))\<rparr>))"
proof (intro conjI impI)
  assume "requests rl c = None"
  then show "is_allowed rl c t = (True, rl\<lparr>requests := (requests rl)(c \<mapsto> (t, 1))\<rparr>)"
    by (rule is_allowed_new)
next
  assume "requests rl c = Some (s, n) \<and> t - s > window_time rl"
  then show "is_allowed rl c t = (True, rl\<lparr>requests := (requests rl)(c \<mapsto> (t, 1))\<rparr>)"
    by (simp add: is_allowed_reset)
next
  assume "requests rl c = Some (s, n) \<and> \<not> t - s > window_time rl \<and> n < max_requests rl"
  then show "is_allowed rl c t = (True, rl\<lparr>requests := (requests rl)(c \<mapsto> (s, n + 1))\<rparr>)"
    by (simp add: is_allowed_count)
next
  assume "requests rl c = Some (s, n) \<and> \<not> t - s > window_time rl \<and> \<not> n < max_requests rl"
  then show "is_allowed rl c t = (False, rl)"
    by (simp add: is_allowed_deny)
next
  assume h: "t1 \<le> t2 \<and> t2 \<le> t3 \<and> t3 \<le> t4 \<and> t4 - t1 \<le> 10 \<and> t5 - t1 > 120"
  define rl4 :: "'c RateLimiter" where "rl4 = rate_limiter\<lparr>requests := [c \<mapsto> (t1, 3)]\<rparr>"
  have four: "serve (rate_limiter :: 'c RateLimiter) [(c, t1), (c, t2), (c, t3), (c, t4)] =
                ([True, True, True, False], rl4)"
    unfolding rl4_def using h by (intro serve_four) simp_all
  have rec: "requests rl4 c = Some (t1, 3)"
    by (simp add: rl4_def)
  have mx: "max_requests rl4 = 3" and win: "window_time rl4 = 120"
    by (simp_all add: rl4_def rate_limiter_def RateLimiter_init_def)
  have deny: "is_allowed rl4 c t4 = (False, rl4)"
    using h by (intro is_allowed_deny [OF rec]) (simp_all add: mx win)
  have again: "is_allowed rl4 c t5 = (True, rl4\<lparr>requests := (requests rl4)(c \<mapsto> (t5, 1))\<rparr>)"
    using h by (intro is_allowed_reset [OF rec]) (simp add: win)
  show "\<exists>rl4. serve (rate_limiter :: 'c RateLimiter) [(c, t1), (c, t2), (c, t3), (c, t4)] =
                  ([True, True, True, False], rl4)
              \<and> requests rl4 c = Some (t1, 3)
              \<and> fst (limit_allowed rl4 c t4) = Inl (HTTPException 429 ''Too Many Requests'')
              \<and> fst (is_allowed rl4 c t5) = True
              \<and> requests (snd (is_allowed rl4 c t5)) c = Some (t5, 1)"
    using four rec deny again by (intro exI [of _ rl4]) (simp add: limit_allowed_def)
next
  assume "fst (is_allowed rl c t)"
  then show "limit_allowed rl c t = (Inr True, snd (is_allowed rl c t))"
    by (rule limit_allowed_allow)
next
  assume "\<not> fst (is_allowed rl c t)"
  then show "limit_allowed rl c t
          = (Inl (HTTPException 429 ''Too Many Requests''), snd (is_allowed rl c t))"
    by (rule limit_allowed_deny)
next
  show "max_requests (rate_limiter :: 'c RateLimiter) = 3"
    by (simp add: rate_limiter_def RateLimiter_init_def)
next
  show "window_time (rate_limiter :: 'c RateLimiter) = 120"
    by (simp add: rate_limiter_def RateLimiter_init_def)
next
  show "requests (rate_limiter :: 'c RateLimiter) c = None"
    by (simp add: rate_limiter_def RateLimiter_init_def)
next
  assume h: "max_requests rl0 = 3 \<and> window_time rl0 = 120 \<and> requests rl0 c = None
          \<and> t1 \<le> t2 \<and> t2 \<le> t3 \<and> t3 \<le> t4 \<and> t4 - t1 \<le> 10 \<and> t5 - t1 > 120"
  then show "serve rl0 [(c, t1), (c, t2), (c, t3), (c, t4)]
          = ([True, True, True, False], rl0\<lparr>requests := (requests rl0)(c \<mapsto> (t1, 3))\<rparr>)"
    by (intro serve_burst) simp_all
  from h show "serve_limited rl0 [(c, t1), (c, t2), (c, t3), (c, t4)]
          = ([Inr True, Inr True, Inr True, Inl (HTTPException 429 ''Too Many Requests'')],
             rl0\<lparr>requests := (requests rl0)(c \<mapsto> (t1, 3))\<rparr>)"
    by (intro serve_limited_burst) simp_all
  from h show "is_allowed (rl0\<lparr>requests := (requests rl0)(c \<mapsto> (t1, 3))\<rparr>) c t5
          = (True, rl0\<lparr>requests := (requests rl0)(c \<mapsto> (t5, 1))\<rparr>)"
    by (intro after_window) simp_all
  from h show "limit_allowed (rl0\<lparr>requests := (requests rl0)(c \<mapsto> (t1, 3))\<rparr>) c t5
          = (Inr True, rl0\<lparr>requests := (requests rl0)(c \<mapsto> (t5, 1))\<rparr>)"
    by (intro after_window) simp_all
qed

theorem rate_limiter_fixed_window_witness:
  "is_allowed (rate_limiter :: nat RateLimiter) 7 0
     = (True, rate_limiter\<lparr>requests := [7 \<mapsto> (0, 1)]\<rparr>)
   \<and> is_allowed ((rate_limiter :: nat RateLimiter)\<lparr>requests := [7 \<mapsto> (0, 3)]\<rparr>) 7 121
     = (True, rate_limiter\<lparr>requests := [7 \<mapsto> (121, 1)]\<rparr>)
   \<and> is_allowed ((rate_limiter :: nat RateLimiter)\<lparr>requests := [7 \<mapsto> (0, 2)]\<rparr>) 7 120
     = (True, rate_limiter\<lparr>requests := [7 \<mapsto> (0, 3)]\<rparr>)
   \<and> is_allowed ((rate_limiter :: nat RateLimiter)\<lparr>requests := [7 \<mapsto> (0, 3)]\<rparr>) 7 120
     = (False, rate_limiter\<lparr>requests := [7 \<mapsto> (0, 3)]\<rparr>)
   \<and> serve (rate_limiter :: nat RateLimiter) [(7, 0), (7, 2), (7, 5), (7, 10)]
     = ([True, True, True, False], rate_limiter\<lparr>requests := [7 \<mapsto> (0, 3)]\<rparr>)
   \<and> limit_allowed (rate_limiter :: nat RateLimiter) 7 0
     = (Inr True, rate_limiter\<lparr>requests := [7 \<mapsto> (0, 1)]\<rparr>)
   \<and> limit_allowed ((rate_limiter :: nat RateLimiter)\<lparr>requests := [7 \<mapsto> (0, 3)]\<rparr>) 7 120
     = (Inl (HTTPException 429 ''Too Many Requests''),
        rate_limiter\<lparr>requests := [7 \<mapsto> (0, 3)]\<rparr>)
   \<and> serve_limited ((rate_limiter :: nat RateLimiter)\<lparr>requests := [8 \<mapsto> (1, 3)]\<rparr>)
         [(7, 0), (7, 2), (7, 5), (7, 10)]
     = ([Inr True, Inr True, Inr True, Inl (HTTPException 429 ''Too Many Requests'')],
        rate_limiter\<lparr>requests := [8 \<mapsto> (1, 3), 7 \<mapsto> (0, 3)]\<rparr>)
   \<and> limit_allowed ((rate_limiter :: nat RateLimiter)\<lparr>requests := [8 \<mapsto> (1, 3), 7 \<mapsto> (0, 3)]\<rparr>)
         7 121
     = (Inr True, rate_limiter\<lparr>requests := [8 \<mapsto> (1, 3), 7 \<mapsto> (121, 1)]\<rparr>)"
  using rate_limiter_fixed_window [where rl = "rate_limiter :: nat RateLimiter" and c = 7
      and t = 0 and ?t1.0 = 0 and ?t2.0 = 2 and ?t3.0 = 5 and ?t4.0 = 10 and ?t5.0 = 121
      and ?rl0.0 = "(rate_limiter :: nat RateLimiter)\<lparr>requests := [8 \<mapsto> (1, 3)]\<rparr>"]
    rate_limiter_fixed_window [where rl = "(rate_limiter :: nat RateLimiter)\<lparr>requests := [7 \<mapsto> (0, 3)]\<rparr>"
      and c = 7 and t = 121 and s = 0 and n = 3]
    rate_limiter_fixed_window [where rl = "(rate_limiter :: nat RateLimiter)\<lparr>requests := [7 \<mapsto> (0, 2)]\<rparr>"
      and c = 7 and t = 120 and s = 0 and n = 2]
    rate_limiter_fixed_window [where rl = "(rate_limiter :: nat RateLimiter)\<lparr>requests := [7 \<mapsto> (0, 3)]\<rparr>"
      and c = 7 and t = 120 and s = 0 and n = 3]
  by (simp add: rate_limiter_def RateLimiter_init_def is_allowed_def limit_allowed_def)

section \<open>Owner scoping of the contact reads\<close>

lemma owned_by_set: "c \<in> set (owned_by uid db) \<longleftrightarrow> c \<in> set (contacts db) \<and> created_by c = uid"
  by (auto simp: owned_by_def)

lemma scalar_one_or_none_Some: "scalar_one_or_none xs = Inr (Some x) \<Longrightarrow> xs = [x]"
  by (cases xs rule: scalar_one_or_none.cases) auto

lemma scalar_one_or_none_None: "scalar_one_or_none xs = Inr None \<longleftrightarrow> xs = []"
  by (cases xs rule: scalar_one_or_none.cases) auto

lemma get_contacts_owned:
  "get_contacts limit offset db uid = Inr cs \<Longrightarrow> c \<in> set cs \<Longrightarrow>
     c \<in> set (contacts db) \<and> created_by c = uid"
  by (auto simp: get_contacts_def owned_by_set split: if_splits dest!: in_set_takeD in_set_dropD)

lemma get_contact_owned:
  "get_contact cid db uid = Inr (Some c) \<Longrightarrow>
     c \<in> set (contacts db) \<and> created_by c = uid \<and> contact_id c = cid"
proof -
  assume "get_contact cid db uid = Inr (Some c)"
  then have "filter (\<lambda>c. contact_id c = cid) (owned_by uid db) = [c]"
    unfolding get_contact_def by (rule scalar_one_or_none_Some)
  then have "c \<in> set (filter (\<lambda>c. contact_id c = cid) (owned_by uid db))" by simp
  then show ?thesis by (simp add: owned_by_set)
qed

lemma get_contact_by_name_owned:
  "c \<in> set (get_contact_by_name like q db uid) \<Longrightarrow> c \<in> set (contacts db) \<and> created_by c = uid"
  by (simp add: get_contact_by_name_def owned_by_set)

lemma get_contact_by_mail_owned:
  "c \<in> set (get_contact_by_mail like q db uid) \<Longrightarrow> c \<in> set (contacts db) \<and> created_by c = uid"
  by (simp add: get_contact_by_mail_def owned_by_set)

lemma get_birthday_list_owned:
  "c \<in> set (get_birthday_list db uid today) \<Longrightarrow> c \<in> set (contacts db) \<and> created_by c = uid"
  by (simp add: get_birthday_list_def owned_by_set)

lemma route_get_contact_raises: "route_get_contact cid db token = Inl TypeError"
  by (simp add: route_get_contact_def call_get_contact_def)

text \<open>
  C1. Every contact-read operation is scoped to one owner. The five repository queries
  (list, get-by-id, search-by-name, search-by-mail, birthday-list) return only rows of the
  contacts table whose \<open>created_by\<close> is the \<open>user_id\<close> they were given; the router
  operations that return contacts (list, birthday, search by name, search by mail) pass the
  id of the user the token resolves to, so what they return is owned by that user. A search
  without a query returns the empty list. The router's get-by-id never returns a contact.
\<close>

theorem contact_reads_owner_scoped:
  "(\<forall>cs. get_contacts limit offset db uid = Inr cs \<longrightarrow>
        (\<forall>c\<in>set cs. c \<in> set (contacts db) \<and> created_by c = uid))
   \<and> (\<forall>c. get_contact cid db uid = Inr (Some c) \<longrightarrow>
        c \<in> set (contacts db) \<and> created_by c = uid)
   \<and> (\<forall>c\<in>set (get_contact_by_name like q db uid). c \<in> set (contacts db) \<and> created_by c = uid)
   \<and> (\<forall>c\<in>set (get_contact_by_mail like q db uid). c \<in> set (contacts db) \<and> created_by c = uid)
   \<and> (\<forall>c\<in>set (get_birthday_list db uid today). c \<in> set (contacts db) \<and> created_by c = uid)
   \<and> (\<forall>cs. route_list_contacts dec limit offset db token = Inr cs \<longrightarrow>
        (\<exists>u. get_current_user dec token db = Inr u \<and>
             (\<forall>c\<in>set cs. c \<in> set (contacts db) \<and> created_by c = user_id u)))
   \<and> (\<forall>cs. route_birthday_list dec db token today = Inr cs \<longrightarrow>
        (\<exists>u. get_current_user dec token db = Inr u \<and>
             (\<forall>c\<in>set cs. c \<in> set (contacts db) \<and> created_by c = user_id u)))
   \<and> (\<forall>cs. route_search_name dec like (Some q) db token = Inr cs \<longrightarrow>
        (\<exists>u. get_current_user dec token db = Inr u \<and>
             (\<forall>c\<in>set cs. c \<in> set (contacts db) \<and> created_by c = user_id u)))
   \<and> (\<forall>cs. route_search_mail dec like (Some q) db token = Inr cs \<longrightarrow>
        (\<exists>u. get_current_user dec token db = Inr u \<and>
             (\<forall>c\<in>set cs. c \<in> set (contacts db) \<and> created_by c = user_id u)))
   \<and> route_search_name dec like None db token = Inr []
   \<and> route_search_mail dec like None db token = Inr []
   \<and> (\<forall>c. route_get_contact cid db token \<noteq> Inr (Found c))"
proof (intro conjI allI impI ballI)
  fix cs c assume "get_contacts limit offset db uid = Inr cs" "c \<in> set cs"
  then show "c \<in> set (contacts db)" "created_by c = uid"
    using get_contacts_owned by blast+
next
  fix c assume "get_contact cid db uid = Inr (Some c)"
  then show "c \<in> set (contacts db)" "created_by c = uid"
    using get_contact_owned by blast+
next
  fix c assume "c \<in> set (get_contact_by_name like q db uid)"
  then show "c \<in> set (contacts db)" "created_by c = uid"
    using get_contact_by_name_owned by blast+
next
  fix c assume "c \<in> set (get_contact_by_mail like q db uid)"
  then show "c \<in> set (contacts db)" "created_by c = uid"
    using get_contact_by_mail_owned by blast+
next
  fix c assume "c \<in> set (get_birthday_list db uid today)"
  then show "c \<in> set (contacts db)" "created_by c = uid"
    using get_birthday_list_owned by blast+
next
  fix cs assume "route_list_contacts dec limit offset db token = Inr cs"
  then show "\<exists>u. get_current_user dec token db = Inr u \<and>
             (\<forall>c\<in>set cs. c \<in> set (contacts db) \<and> created_by c = user_id u)"
    by (auto simp: route_list_contacts_def split: if_splits sum.splits dest: get_contacts_owned)
next
  fix cs assume "route_birthday_list dec db token today = Inr cs"
  then show "\<exists>u. get_current_user dec token db = Inr u \<and>
             (\<forall>c\<in>set cs. c \<in> set (contacts db) \<and> created_by c = user_id u)"
    by (auto simp: route_birthday_list_def split: sum.splits dest: get_birthday_list_owned)
next
  fix cs assume "route_search_name dec like (Some q) db token = Inr cs"
  then show "\<exists>u. get_current_user dec token db = Inr u \<and>
             (\<forall>c\<in>set cs. c \<in> set (contacts db) \<and> created_by c = user_id u)"
    by (auto simp: route_search_name_def split: sum.splits dest: get_contact_by_name_owned)
next
  fix cs assume "route_search_mail dec like (Some q) db token = Inr cs"
  then show "\<exists>u. get_current_user dec token db = Inr u \<and>
             (\<forall>c\<in>set cs. c \<in> set (contacts db) \<and> created_by c = user_id u)"
    by (auto simp: route_search_mail_def split: sum.splits dest: get_contact_by_mail_owned)
next
  show "route_search_name dec like None db token = Inr []"
    by (simp add: route_search_name_def)
next
  show "route_search_mail dec like None db token = Inr []"
    by (simp add: route_search_mail_def)
next
  fix c show "route_get_contact cid db token \<noteq> Inr (Found c)"
    by (simp add: route_get_contact_raises)
qed

lemma get_current_user_a: "get_current_user Some access_a example_db = Inr user_a"
  by (simp add: get_current_user_def getitem_def access_a_def get_user_def example_db_def
      user_a_def user_b_def)

theorem contact_reads_owner_scoped_witness:
  "get_contacts 10 0 example_db 1 = Inr [contact_ann]
   \<and> get_contact 1 example_db 1 = Inr (Some contact_ann)
   \<and> get_contact 2 example_db 1 = Inr None
   \<and> get_contact_by_name like_exact ''Ann'' example_db 1 = [contact_ann]
   \<and> get_contact_by_mail like_exact ''ann@example.com'' example_db 1 = [contact_ann]
   \<and> get_birthday_list example_db 1 100 = [contact_ann]
   \<and> get_current_user Some access_a example_db = Inr user_a
   \<and> route_list_contacts Some 10 0 example_db access_a = Inr [contact_ann]
   \<and> route_birthday_list Some example_db access_a 100 = Inr [contact_ann]
   \<and> route_search_name Some like_exact (Some ''Ann'') example_db access_a = Inr [contact_ann]
   \<and> route_search_mail Some like_exact (Some ''ann@example.com'') example_db access_a
       = Inr [contact_ann]
   \<and> contact_ann \<in> set (contacts example_db)
   \<and> created_by contact_ann = user_id user_a
   \<and> created_by contact_bob \<noteq> user_id user_a"
  using contact_reads_owner_scoped [where limit = 10 and offset = 0 and db = example_db
      and uid = 1 and cid = 1 and like = like_exact and q = "''Ann''" and today = 100
      and dec = Some and token = access_a]
    get_current_user_a
  by (simp add: get_contacts_def get_contact_def owned_by_def get_contact_by_name_def
      get_contact_by_mail_def get_birthday_list_def column_like_def like_exact_def
      route_list_contacts_def route_birthday_list_def route_search_name_def
      route_search_mail_def example_db_def contact_ann_def contact_bob_def user_a_def)

section \<open>Token scope\<close>

lemma getitem_Inr: "getitem p k = Inr v \<longleftrightarrow> p k = Some v"
  by (simp add: getitem_def split: option.splits)

lemma get_current_user_scope:
  "get_current_user dec t db = Inr u \<Longrightarrow>
     \<exists>p. dec t = Some p \<and> p ''scope'' = Some (Str ''access_token'')"
  by (auto simp: get_current_user_def getitem_def Let_def
      split: option.splits sum.splits if_splits)

lemma get_current_user_wrong_scope:
  "dec t = Some p \<Longrightarrow> p ''scope'' = Some v \<Longrightarrow> v \<noteq> Str ''access_token'' \<Longrightarrow>
     get_current_user dec t db = Inl (HTTPException 401 ''Could not validate credentials'')"
  by (simp add: get_current_user_def getitem_def)

lemma decode_refresh_token_scope:
  "decode_refresh_token dec t = Inr email \<Longrightarrow>
     \<exists>p. dec t = Some p \<and> p ''scope'' = Some (Str ''refresh_token'')"
  by (auto simp: decode_refresh_token_def getitem_def
      split: option.splits sum.splits if_splits)

lemma decode_refresh_token_wrong_scope:
  "dec t = Some p \<Longrightarrow> p ''scope'' = Some v \<Longrightarrow> v \<noteq> Str ''refresh_token'' \<Longrightarrow>
     decode_refresh_token dec t = Inl (HTTPException 401 ''Invalid scope for token'')"
  by (simp add: decode_refresh_token_def getitem_def)

lemma refresh_user_token_decodes:
  "refresh_user_token dec enc t db t1 t2 t3 t4 = Inr tok \<Longrightarrow>
     \<exists>email. decode_refresh_token dec t = Inr email"
  by (auto simp: refresh_user_token_def split: sum.splits)

lemma refresh_user_token_decode_error:
  "decode_refresh_token dec t = Inl e \<Longrightarrow> refresh_user_token dec enc t db t1 t2 t3 t4 = Inl e"
  by (simp add: refresh_user_token_def)

text \<open>
  C3. Every consumer checks the token's scope. \<open>get_current_user\<close> returns a user only
  for a token that decodes to a payload whose scope is \<open>access_token\<close>, and answers a
  token of scope \<open>refresh_token\<close> with 401; \<open>decode_refresh_token\<close> and
  \<open>refresh_user_token\<close> succeed only for a token that decodes to a payload whose scope is
  \<open>refresh_token\<close>, and answer a token of scope \<open>access_token\<close> with 401.
\<close>

theorem token_scope_enforced:
  "(\<forall>u. get_current_user dec t db = Inr u \<longrightarrow>
        (\<exists>p. dec t = Some p \<and> p ''scope'' = Some (Str ''access_token'')))
   \<and> (\<forall>p. dec t = Some p \<and> p ''scope'' = Some (Str ''refresh_token'') \<longrightarrow>
        get_current_user dec t db = Inl (HTTPException 401 ''Could not validate credentials'')
        \<and> unauthorized (HTTPException 401 ''Could not validate credentials''))
   \<and> (\<forall>email. decode_refresh_token dec t = Inr email \<longrightarrow>
        (\<exists>p. dec t = Some p \<and> p ''scope'' = Some (Str ''refresh_token'')))
   \<and> (\<forall>tok. refresh_user_token dec enc t db t1 t2 t3 t4 = Inr tok \<longrightarrow>
        (\<exists>p. dec t = Some p \<and> p ''scope'' = Some (Str ''refresh_token'')))
   \<and> (\<forall>p. dec t = Some p \<and> p ''scope'' = Some (Str ''access_token'') \<longrightarrow>
        decode_refresh_token dec t = Inl (HTTPException 401 ''Invalid scope for token'')
        \<and> refresh_user_token dec enc t db t1 t2 t3 t4
            = Inl (HTTPException 401 ''Invalid scope for token'')
        \<and> unauthorized (HTTPException 401 ''Invalid scope for token''))"
proof (intro conjI allI impI)
  fix u assume "get_current_user dec t db = Inr u"
  then show "\<exists>p. dec t = Some p \<and> p ''scope'' = Some (Str ''access_token'')"
    by (rule get_current_user_scope)
next
  fix p assume "dec t = Some p \<and> p ''scope'' = Some (Str ''refresh_token'')"
  then show "get_current_user dec t db = Inl (HTTPException 401 ''Could not validate credentials'')"
    by (intro get_current_user_wrong_scope [of dec t p "Str ''refresh_token''"]) simp_all
next
  show "unauthorized (HTTPException 401 ''Could not validate credentials'')" by simp
next
  fix email assume "decode_refresh_token dec t = Inr email"
  then show "\<exists>p. dec t = Some p \<and> p ''scope'' = Some (Str ''refresh_token'')"
    by (rule decode_refresh_token_scope)
next
  fix tok assume "refresh_user_token dec enc t db t1 t2 t3 t4 = Inr tok"
  then have "\<exists>email. decode_refresh_token dec t = Inr email"
    by (rule refresh_user_token_decodes)
  then obtain email where "decode_refresh_token dec t = Inr email" ..
  then show "\<exists>p. dec t = Some p \<and> p ''scope'' = Some (Str ''refresh_token'')"
    by (rule decode_refresh_token_scope)
next
  fix p assume h: "dec t = Some p \<and> p ''scope'' = Some (Str ''access_token'')"
  then show d: "decode_refresh_token dec t = Inl (HTTPException 401 ''Invalid scope for token'')"
    by (intro decode_refresh_token_wrong_scope [of dec t p "Str ''access_token''"]) simp_all
  then show "refresh_user_token dec enc t db t1 t2 t3 t4
            = Inl (HTTPException 401 ''Invalid scope for token'')"
    by (rule refresh_user_token_decode_error)
next
  show "unauthorized (HTTPException 401 ''Invalid scope for token'')" by simp
qed

lemma find_user_a: "find_user (Str ''a@example.com'') example_db = Inr (Some user_a)"
  by (simp add: example_db_def user_a_def user_b_def)

theorem token_scope_enforced_witness:
  "get_current_user Some access_a example_db = Inr user_a
   \<and> access_a ''scope'' = Some (Str ''access_token'')
   \<and> refresh_a ''scope'' = Some (Str ''refresh_token'')
   \<and> get_current_user Some refresh_a example_db
       = Inl (HTTPException 401 ''Could not validate credentials'')
   \<and> decode_refresh_token Some refresh_a = Inr (Str ''a@example.com'')
   \<and> \<not> isl (refresh_user_token Some (\<lambda>p. p) refresh_a example_db 0 0 0 0)
   \<and> decode_refresh_token Some access_a = Inl (HTTPException 401 ''Invalid scope for token'')
   \<and> refresh_user_token Some (\<lambda>p. p) access_a example_db 0 0 0 0
       = Inl (HTTPException 401 ''Invalid scope for token'')"
  using token_scope_enforced [where dec = Some and t = access_a and db = example_db
      and enc = "\<lambda>p. p" and ?t1.0 = 0 and ?t2.0 = 0 and ?t3.0 = 0 and ?t4.0 = 0]
    token_scope_enforced [where dec = Some and t = refresh_a and db = example_db
      and enc = "\<lambda>p. p" and ?t1.0 = 0 and ?t2.0 = 0 and ?t3.0 = 0 and ?t4.0 = 0]
    get_current_user_a
  by (simp add: access_a_def refresh_a_def decode_refresh_token_def getitem_def
      refresh_user_token_def example_db_def user_a_def user_b_def)

section \<open>Login\<close>

lemma generate_token_no_user:
  "authenticate_user vp db username password = Inr None \<Longrightarrow>
     generate_token vp enc db username password r t1 t2 t3 t4 = Inl AttributeError"
  by (simp add: generate_token_def getattr_is_active_def)

lemma generate_token_inactive:
  "authenticate_user vp db username password = Inr (Some u) \<Longrightarrow> \<not> is_active u \<Longrightarrow>
     generate_token vp enc db username password r t1 t2 t3 t4
       = Inl (HTTPException 401 ''User is not activated'')"
  by (simp add: generate_token_def getattr_is_active_def)

lemma generate_token_active:
  "authenticate_user vp db username password = Inr (Some u) \<Longrightarrow> is_active u \<Longrightarrow>
     generate_token vp enc db username password r t1 t2 t3 t4
       = Inr (\<lparr>access_token =
                  create_access_token enc [''sub'' \<mapsto> Str (user_email u)]
                    (Some (timedelta_minutes ACCESS_TOKEN_EXPIRE_MINUTES)) t1 t2,
                refresh_token =
                  create_refresh_token enc [''sub'' \<mapsto> Str (user_email u)]
                    (Some (timedelta_minutes REFRESH_TOKEN_EXPIRATION)) t3 t4,
                token_type = ''bearer''\<rparr>,
              commit_user db (u\<lparr>otp := Some (randint 100000 999999 r)\<rparr>))"
  by (simp add: generate_token_def getattr_is_active_def update_otp_def Let_def)

lemma generate_token_success:
  assumes "generate_token vp enc db username password r t1 t2 t3 t4 = Inr (tok, db')"
  shows "\<exists>u. authenticate_user vp db username password = Inr (Some u) \<and> is_active u"
proof (cases "authenticate_user vp db username password")
  case (Inl e)
  with assms show ?thesis by (simp add: generate_token_def)
next
  case (Inr user)
  show ?thesis
  proof (cases user)
    case None
    with Inr assms show ?thesis by (simp add: generate_token_no_user)
  next
    case (Some u)
    with Inr assms show ?thesis by (cases "is_active u") (simp_all add: generate_token_inactive)
  qed
qed

lemma authenticate_user_found:
  "authenticate_user vp db username password = Inr (Some u) \<Longrightarrow>
     find_user (Str username) db = Inr (Some u) \<and> vp password (passwd u)"
  by (auto simp: authenticate_user_def get_user_def split: sum.splits option.splits if_splits)

lemma authenticate_user_a:
  "authenticate_user verify_equal example_db ''a@example.com'' ''pw-a'' = Inr (Some user_a)"
  by (simp add: authenticate_user_def get_user_def verify_equal_def example_db_def
      user_a_def user_b_def)

text \<open>
  C4. The claim: an unknown email, a password that does not verify, or an account that is
  not active makes token generation fail with Unauthorized. The code at these inputs: for an
  unknown email and for a wrong password \<open>authenticate_user\<close> returns None, the guard
  \<open>not user and not user.is_active\<close> then reads \<open>is_active\<close> of None and
  \<open>generate_token\<close> ends in AttributeError, which is not an HTTP 401; only the account
  that is not active is answered with 401. No token pair is issued in any of the three.
\<close>

theorem generate_token_bad_credentials:
  "authenticate_user verify_equal example_db ''nobody@example.com'' ''pw-a'' = Inr None
   \<and> generate_token verify_equal (\<lambda>p :: payload. p) example_db ''nobody@example.com'' ''pw-a''
        0 0 0 0 0 = Inl AttributeError
   \<and> authenticate_user verify_equal example_db ''a@example.com'' ''wrong'' = Inr None
   \<and> generate_token verify_equal (\<lambda>p :: payload. p) example_db ''a@example.com'' ''wrong''
        0 0 0 0 0 = Inl AttributeError
   \<and> \<not> unauthorized AttributeError
   \<and> generate_token verify_equal (\<lambda>p :: payload. p) example_db ''b@example.com'' ''pw-b''
        0 0 0 0 0 = Inl (HTTPException 401 ''User is not activated'')"
proof -
  have n: "authenticate_user verify_equal example_db ''nobody@example.com'' ''pw-a'' = Inr None"
    by (simp add: authenticate_user_def get_user_def example_db_def user_a_def user_b_def)
  have w: "authenticate_user verify_equal example_db ''a@example.com'' ''wrong'' = Inr None"
    by (simp add: authenticate_user_def get_user_def verify_equal_def example_db_def
        user_a_def user_b_def)
  have b: "authenticate_user verify_equal example_db ''b@example.com'' ''pw-b'' = Inr (Some user_b)"
    by (simp add: authenticate_user_def get_user_def verify_equal_def example_db_def
        user_a_def user_b_def)
  have ib: "\<not> is_active user_b" by (simp add: user_b_def)
  show ?thesis
    using n w generate_token_no_user [OF n, of "\<lambda>p :: payload. p" 0 0 0 0 0]
      generate_token_no_user [OF w, of "\<lambda>p :: payload. p" 0 0 0 0 0]
      generate_token_inactive [OF b ib, of "\<lambda>p :: payload. p" 0 0 0 0 0]
    by simp
qed

section \<open>Activation\<close>

lemma activate_user_unknown:
  "find_user (Str mail) db = Inr None \<Longrightarrow>
     activate_user mail x db = Inl (HTTPException 401 ''User is not found'')"
  by (simp add: activate_user_def)

lemma activate_user_mismatch:
  "find_user (Str mail) db = Inr (Some u) \<Longrightarrow> otp u \<noteq> Some x \<Longrightarrow>
     activate_user mail x db = Inl (HTTPException 401 ''User is not found'')"
  by (simp add: activate_user_def)

lemma activate_user_match:
  "find_user (Str mail) db = Inr (Some u) \<Longrightarrow> otp u = Some x \<Longrightarrow>
     activate_user mail x db
       = Inr (u\<lparr>is_active := True\<rparr>, commit_user db (u\<lparr>is_active := True\<rparr>))"
  by (simp add: activate_user_def user_activation_def Let_def)

lemma find_user_Some:
  "find_user (Str e) db = Inr (Some u) \<Longrightarrow>
     filter (\<lambda>r. user_email r = e) (users db) = [u]"
  by (simp add: scalar_one_or_none_Some)

lemma find_user_commit:
  assumes d: "distinct (map user_id (users db))"
    and f: "find_user (Str e) db = Inr (Some u)"
    and i: "user_id u' = user_id u" and m: "user_email u' = user_email u"
  shows "find_user (Str e) (commit_user db u') = Inr (Some u')"
proof -
  let ?P = "\<lambda>r. user_email r = e"
  let ?f = "\<lambda>r. if user_id r = user_id u' then u' else r"
  have one: "filter ?P (users db) = [u]" using f by (rule find_user_Some)
  then have "u \<in> set (filter ?P (users db))" by simp
  then have uin: "u \<in> set (users db)" and ue: "user_email u = e" by simp_all
  have inj: "inj_on user_id (set (users db))" using d by (simp add: distinct_map)
  have same: "?P (?f r) = ?P r" if "r \<in> set (users db)" for r
  proof (cases "user_id r = user_id u'")
    case True
    then have "r = u" using inj that uin i by (auto dest: inj_onD)
    then show ?thesis using True m ue by simp
  next
    case False
    then show ?thesis by simp
  qed
  have "filter ?P (map ?f (users db)) = map ?f (filter (?P \<circ> ?f) (users db))"
    by (simp add: filter_map)
  also have "filter (?P \<circ> ?f) (users db) = filter ?P (users db)"
    by (rule filter_cong) (use same in auto)
  finally have "filter ?P (map ?f (users db)) = [u']" using one i by simp
  then show ?thesis by (simp add: commit_user_def)
qed

text \<open>
  C5 (as amended). Activation with an email and an OTP: when no user has the email it fails
  with status 401 (Unauthorized, detail "User is not found"), not with a 404; when the
  submitted OTP differs from the persisted one it fails with status 401; when they are equal
  it sets the user active, commits the row and returns the user, and the committed row is
  what a later lookup by that email finds (user ids being a primary key). For an existing
  user activation succeeds exactly when the submitted OTP equals the persisted one.
\<close>

theorem activate_user_outcomes:
  "(find_user (Str mail) db = Inr None \<longrightarrow>
      activate_user mail x db = Inl (HTTPException 401 ''User is not found'')
      \<and> unauthorized (HTTPException 401 ''User is not found''))
   \<and> (\<forall>u. find_user (Str mail) db = Inr (Some u) \<and> otp u \<noteq> Some x \<longrightarrow>
        (\<exists>e. activate_user mail x db = Inl e \<and> unauthorized e))
   \<and> (\<forall>u. find_user (Str mail) db = Inr (Some u) \<and> otp u = Some x \<longrightarrow>
        activate_user mail x db
          = Inr (u\<lparr>is_active := True\<rparr>, commit_user db (u\<lparr>is_active := True\<rparr>))
        \<and> (distinct (map user_id (users db)) \<longrightarrow>
             find_user (Str mail) (commit_user db (u\<lparr>is_active := True\<rparr>))
               = Inr (Some (u\<lparr>is_active := True\<rparr>))))
   \<and> (\<forall>u. find_user (Str mail) db = Inr (Some u) \<longrightarrow>
        (\<not> isl (activate_user mail x db)) = (otp u = Some x))"
proof (intro conjI allI impI)
  assume "find_user (Str mail) db = Inr None"
  then show "activate_user mail x db = Inl (HTTPException 401 ''User is not found'')"
    by (rule activate_user_unknown)
next
  show "unauthorized (HTTPException 401 ''User is not found'')" by simp
next
  fix u assume "find_user (Str mail) db = Inr (Some u) \<and> otp u \<noteq> Some x"
  then have "activate_user mail x db = Inl (HTTPException 401 ''User is not found'')"
    by (simp add: activate_user_mismatch)
  then show "\<exists>e. activate_user mail x db = Inl e \<and> unauthorized e" by simp
next
  fix u assume "find_user (Str mail) db = Inr (Some u) \<and> otp u = Some x"
  then show "activate_user mail x db
          = Inr (u\<lparr>is_active := True\<rparr>, commit_user db (u\<lparr>is_active := True\<rparr>))"
    by (simp add: activate_user_match)
next
  fix u assume "find_user (Str mail) db = Inr (Some u) \<and> otp u = Some x"
    and "distinct (map user_id (users db))"
  then show "find_user (Str mail) (commit_user db (u\<lparr>is_active := True\<rparr>))
               = Inr (Some (u\<lparr>is_active := True\<rparr>))"
    by (intro find_user_commit) simp_all
next
  fix u assume f: "find_user (Str mail) db = Inr (Some u)"
  show "(\<not> isl (activate_user mail x db)) = (otp u = Some x)"
  proof (cases "otp u = Some x")
    case True
    then show ?thesis using activate_user_match [OF f] by simp
  next
    case False
    then show ?thesis using activate_user_mismatch [OF f] by simp
  qed
qed

theorem activate_user_outcomes_witness:
  "find_user (Str ''nobody@example.com'') example_db = Inr None
   \<and> activate_user ''nobody@example.com'' 654321 example_db
       = Inl (HTTPException 401 ''User is not found'')
   \<and> find_user (Str ''b@example.com'') example_db = Inr (Some user_b)
   \<and> otp user_b = Some 654321
   \<and> isl (activate_user ''b@example.com'' 111111 example_db)
   \<and> activate_user ''b@example.com'' 654321 example_db
       = Inr (user_b\<lparr>is_active := True\<rparr>, commit_user example_db (user_b\<lparr>is_active := True\<rparr>))
   \<and> distinct (map user_id (users example_db))
   \<and> find_user (Str ''b@example.com'') (commit_user example_db (user_b\<lparr>is_active := True\<rparr>))
       = Inr (Some (user_b\<lparr>is_active := True\<rparr>))"
  using activate_user_outcomes [where mail = "''nobody@example.com''" and x = 654321
      and db = example_db]
    activate_user_outcomes [where mail = "''b@example.com''" and x = 654321 and db = example_db]
    activate_user_outcomes [where mail = "''b@example.com''" and x = 111111 and db = example_db]
  by (simp add: example_db_def user_a_def user_b_def)

text \<open>
  The claim C5 as stated fails for an unknown email: the error is an HTTPException with
  status 401, not a NotFound.
\<close>

theorem activate_user_unknown_email_counterexample:
  "find_user (Str ''nobody@example.com'') example_db = Inr None
   \<and> activate_user ''nobody@example.com'' 654321 example_db
       = Inl (HTTPException 401 ''User is not found'')
   \<and> \<not> not_found (HTTPException 401 ''User is not found'')"
  by (simp add: activate_user_def example_db_def user_a_def user_b_def)

section \<open>Token lifetimes\<close>

lemma create_access_token_exp:
  assumes "d \<noteq> 0"
  shows "\<exists>p. create_access_token enc dat (Some d) now_exp now_iat = enc p
       \<and> p ''exp'' = Some (Datetime (now_exp + d)) \<and> p ''iat'' = Some (Datetime now_iat)
       \<and> p ''scope'' = Some (Str ''access_token'')"
proof -
  let ?p = "dat(''exp'' \<mapsto> Datetime (now_exp + d), ''iat'' \<mapsto> Datetime now_iat,
               ''scope'' \<mapsto> Str ''access_token'')"
  have "create_access_token enc dat (Some d) now_exp now_iat = enc ?p"
    using assms by (simp add: create_access_token_def)
  moreover have "?p ''exp'' = Some (Datetime (now_exp + d))" by simp
  moreover have "?p ''iat'' = Some (Datetime now_iat)" by simp
  moreover have "?p ''scope'' = Some (Str ''access_token'')" by simp
  ultimately show ?thesis by blast
qed

lemma create_refresh_token_exp:
  assumes "d \<noteq> 0"
  shows "\<exists>p. create_refresh_token enc dat (Some d) now_exp now_iat = enc p
       \<and> p ''exp'' = Some (Datetime (now_exp + d)) \<and> p ''iat'' = Some (Datetime now_iat)
       \<and> p ''scope'' = Some (Str ''refresh_token'')"
proof -
  let ?p = "dat(''exp'' \<mapsto> Datetime (now_exp + d), ''iat'' \<mapsto> Datetime now_iat,
               ''scope'' \<mapsto> Str ''refresh_token'')"
  have "create_refresh_token enc dat (Some d) now_exp now_iat = enc ?p"
    using assms by (simp add: create_refresh_token_def)
  moreover have "?p ''exp'' = Some (Datetime (now_exp + d))" by simp
  moreover have "?p ''iat'' = Some (Datetime now_iat)" by simp
  moreover have "?p ''scope'' = Some (Str ''refresh_token'')" by simp
  ultimately show ?thesis by blast
qed

lemma create_access_token_default:
  shows "\<exists>p. create_access_token enc dat None now_exp now_iat = enc p
       \<and> p ''exp'' = Some (Datetime (now_exp + timedelta_minutes 15)) \<and> p ''iat'' = Some (Datetime now_iat)
       \<and> p ''scope'' = Some (Str ''access_token'')"
proof -
  let ?p = "dat(''exp'' \<mapsto> Datetime (now_exp + timedelta_minutes 15), ''iat'' \<mapsto> Datetime now_iat,
               ''scope'' \<mapsto> Str ''access_token'')"
  have "create_access_token enc dat None now_exp now_iat = enc ?p"
    by (simp add: create_access_token_def)
  moreover have "?p ''exp'' = Some (Datetime (now_exp + timedelta_minutes 15))" by simp
  moreover have "?p ''iat'' = Some (Datetime now_iat)" by simp
  moreover have "?p ''scope'' = Some (Str ''access_token'')" by simp
  ultimately show ?thesis by blast
qed

lemma create_refresh_token_default:
  shows "\<exists>p. create_refresh_token enc dat None now_exp now_iat = enc p
       \<and> p ''exp'' = Some (Datetime (now_exp + timedelta_minutes 1000)) \<and> p ''iat'' = Some (Datetime now_iat)
       \<and> p ''scope'' = Some (Str ''refresh_token'')"
proof -
  let ?p = "dat(''exp'' \<mapsto> Datetime (now_exp + timedelta_minutes 1000), ''iat'' \<mapsto> Datetime now_iat,
               ''scope'' \<mapsto> Str ''refresh_token'')"
  have "create_refresh_token enc dat None now_exp now_iat = enc ?p"
    by (simp add: create_refresh_token_def)
  moreover have "?p ''exp'' = Some (Datetime (now_exp + timedelta_minutes 1000))" by simp
  moreover have "?p ''iat'' = Some (Datetime now_iat)" by simp
  moreover have "?p ''scope'' = Some (Str ''refresh_token'')" by simp
  ultimately show ?thesis by blast
qed

lemma refresh_user_token_success:
  "refresh_user_token dec enc t db t1 t2 t3 t4 = Inr tok \<Longrightarrow>
     \<exists>email. tok = \<lparr>access_token = create_access_token enc [''sub'' \<mapsto> email] None t1 t2,
                     refresh_token = create_refresh_token enc [''sub'' \<mapsto> email] None t3 t4,
                     token_type = ''bearer''\<rparr>"
  by (auto simp: refresh_user_token_def split: sum.splits if_splits)

text \<open>
  C6 (as amended). On the login path the access token expires 30 minutes after the clock
  reading taken when it is built (\<open>ACCESS_TOKEN_EXPIRE_MINUTES\<close>) and the refresh token
  1440 minutes after its own (\<open>REFRESH_TOKEN_EXPIRATION\<close>); on the refresh path the refresh
  token expires 1000 minutes after issuance, the default of \<open>create_refresh_token\<close>.
  Each token carries its scope and its issued-at reading.
\<close>

theorem token_lifetimes:
  "(\<forall>tok db'. generate_token vp enc db username password r t1 t2 t3 t4 = Inr (tok, db') \<longrightarrow>
      (\<exists>pa pr. access_token tok = enc pa
          \<and> pa ''exp'' = Some (Datetime (t1 + timedelta_minutes 30))
          \<and> pa ''iat'' = Some (Datetime t2)
          \<and> pa ''scope'' = Some (Str ''access_token'')
          \<and> refresh_token tok = enc pr
          \<and> pr ''exp'' = Some (Datetime (t3 + timedelta_minutes 1440))
          \<and> pr ''iat'' = Some (Datetime t4)
          \<and> pr ''scope'' = Some (Str ''refresh_token'')))
   \<and> (\<forall>tok. refresh_user_token dec enc t db t1 t2 t3 t4 = Inr tok \<longrightarrow>
      (\<exists>pr. refresh_token tok = enc pr
          \<and> pr ''exp'' = Some (Datetime (t3 + timedelta_minutes 1000))
          \<and> pr ''iat'' = Some (Datetime t4)
          \<and> pr ''scope'' = Some (Str ''refresh_token'')))"
proof (intro conjI allI impI)
  fix tok db'
  assume g: "generate_token vp enc db username password r t1 t2 t3 t4 = Inr (tok, db')"
  then obtain u where u: "authenticate_user vp db username password = Inr (Some u)" "is_active u"
    using generate_token_success by blast
  have tok: "tok = \<lparr>access_token =
                  create_access_token enc [''sub'' \<mapsto> Str (user_email u)]
                    (Some (timedelta_minutes ACCESS_TOKEN_EXPIRE_MINUTES)) t1 t2,
                refresh_token =
                  create_refresh_token enc [''sub'' \<mapsto> Str (user_email u)]
                    (Some (timedelta_minutes REFRESH_TOKEN_EXPIRATION)) t3 t4,
                token_type = ''bearer''\<rparr>"
    using g generate_token_active [OF u, of enc r t1 t2 t3 t4] by simp
  have a: "timedelta_minutes ACCESS_TOKEN_EXPIRE_MINUTES = timedelta_minutes 30"
    and a0: "timedelta_minutes ACCESS_TOKEN_EXPIRE_MINUTES \<noteq> 0"
    by (simp_all add: ACCESS_TOKEN_EXPIRE_MINUTES_def timedelta_minutes_def)
  have b: "timedelta_minutes REFRESH_TOKEN_EXPIRATION = timedelta_minutes 1440"
    and b0: "timedelta_minutes REFRESH_TOKEN_EXPIRATION \<noteq> 0"
    by (simp_all add: REFRESH_TOKEN_EXPIRATION_def timedelta_minutes_def)
  obtain pa where pa0:
      "create_access_token enc [''sub'' \<mapsto> Str (user_email u)]
         (Some (timedelta_minutes ACCESS_TOKEN_EXPIRE_MINUTES)) t1 t2 = enc pa"
      "pa ''exp'' = Some (Datetime (t1 + timedelta_minutes ACCESS_TOKEN_EXPIRE_MINUTES))"
      "pa ''iat'' = Some (Datetime t2)" "pa ''scope'' = Some (Str ''access_token'')"
    using create_access_token_exp [OF a0, of enc "[''sub'' \<mapsto> Str (user_email u)]" t1 t2]
    by blast
  have pa: "access_token tok = enc pa"
      "pa ''exp'' = Some (Datetime (t1 + timedelta_minutes 30))"
      "pa ''iat'' = Some (Datetime t2)" "pa ''scope'' = Some (Str ''access_token'')"
    using pa0 a by (simp_all add: tok)
  obtain pr where pr0:
      "create_refresh_token enc [''sub'' \<mapsto> Str (user_email u)]
         (Some (timedelta_minutes REFRESH_TOKEN_EXPIRATION)) t3 t4 = enc pr"
      "pr ''exp'' = Some (Datetime (t3 + timedelta_minutes REFRESH_TOKEN_EXPIRATION))"
      "pr ''iat'' = Some (Datetime t4)" "pr ''scope'' = Some (Str ''refresh_token'')"
    using create_refresh_token_exp [OF b0, of enc "[''sub'' \<mapsto> Str (user_email u)]" t3 t4]
    by blast
  have pr: "refresh_token tok = enc pr"
      "pr ''exp'' = Some (Datetime (t3 + timedelta_minutes 1440))"
      "pr ''iat'' = Some (Datetime t4)" "pr ''scope'' = Some (Str ''refresh_token'')"
    using pr0 b by (simp_all add: tok)
  show "\<exists>pa pr. access_token tok = enc pa
          \<and> pa ''exp'' = Some (Datetime (t1 + timedelta_minutes 30))
          \<and> pa ''iat'' = Some (Datetime t2)
          \<and> pa ''scope'' = Some (Str ''access_token'')
          \<and> refresh_token tok = enc pr
          \<and> pr ''exp'' = Some (Datetime (t3 + timedelta_minutes 1440))
          \<and> pr ''iat'' = Some (Datetime t4)
          \<and> pr ''scope'' = Some (Str ''refresh_token'')"
    using pa pr by blast
next
  fix tok assume "refresh_user_token dec enc t db t1 t2 t3 t4 = Inr tok"
  then have "\<exists>email.
    tok = \<lparr>access_token = create_access_token enc [''sub'' \<mapsto> email] None t1 t2,
            refresh_token = create_refresh_token enc [''sub'' \<mapsto> email] None t3 t4,
            token_type = ''bearer''\<rparr>"
    by (rule refresh_user_token_success)
  then obtain email where
    "tok = \<lparr>access_token = create_access_token enc [''sub'' \<mapsto> email] None t1 t2,
            refresh_token = create_refresh_token enc [''sub'' \<mapsto> email] None t3 t4,
            token_type = ''bearer''\<rparr>" ..
  then show "\<exists>pr. refresh_token tok = enc pr
          \<and> pr ''exp'' = Some (Datetime (t3 + timedelta_minutes 1000))
          \<and> pr ''iat'' = Some (Datetime t4)
          \<and> pr ''scope'' = Some (Str ''refresh_token'')"
    using create_refresh_token_default [of enc "[''sub'' \<mapsto> email]" t3 t4] by simp
qed

lemma login_a:
  "generate_token verify_equal (\<lambda>p :: payload. p) example_db ''a@example.com'' ''pw-a'' r
     t1 t2 t3 t4
   = Inr (\<lparr>access_token =
              create_access_token (\<lambda>p :: payload. p) [''sub'' \<mapsto> Str ''a@example.com'']
                (Some (timedelta_minutes ACCESS_TOKEN_EXPIRE_MINUTES)) t1 t2,
            refresh_token =
              create_refresh_token (\<lambda>p :: payload. p) [''sub'' \<mapsto> Str ''a@example.com'']
                (Some (timedelta_minutes REFRESH_TOKEN_EXPIRATION)) t3 t4,
            token_type = ''bearer''\<rparr>,
          commit_user example_db (user_a\<lparr>otp := Some (randint 100000 999999 r)\<rparr>))"
  using generate_token_active [OF authenticate_user_a, of "\<lambda>p :: payload. p" r t1 t2 t3 t4]
  by (simp add: user_a_def)

lemma refresh_a_ok:
  "refresh_user_token Some (\<lambda>p :: payload. p) refresh_a example_db t1 t2 t3 t4
   = Inr \<lparr>access_token =
             create_access_token (\<lambda>p :: payload. p) [''sub'' \<mapsto> Str ''a@example.com''] None t1 t2,
           refresh_token =
             create_refresh_token (\<lambda>p :: payload. p) [''sub'' \<mapsto> Str ''a@example.com''] None t3 t4,
           token_type = ''bearer''\<rparr>"
  by (simp add: refresh_user_token_def decode_refresh_token_def getitem_def refresh_a_def
      example_db_def user_a_def user_b_def)

theorem token_lifetimes_witness:
  "\<not> isl (generate_token verify_equal (\<lambda>p :: payload. p) example_db ''a@example.com'' ''pw-a''
            0 5 6 7 8)
   \<and> access_token (fst (projr (generate_token verify_equal (\<lambda>p :: payload. p) example_db
         ''a@example.com'' ''pw-a'' 0 5 6 7 8))) ''exp'' = Some (Datetime (5 + 30 * 60000000))
   \<and> refresh_token (fst (projr (generate_token verify_equal (\<lambda>p :: payload. p) example_db
         ''a@example.com'' ''pw-a'' 0 5 6 7 8))) ''exp'' = Some (Datetime (7 + 1440 * 60000000))
   \<and> \<not> isl (refresh_user_token Some (\<lambda>p :: payload. p) refresh_a example_db 5 6 7 8)
   \<and> refresh_token (projr (refresh_user_token Some (\<lambda>p :: payload. p) refresh_a example_db
         5 6 7 8)) ''exp'' = Some (Datetime (7 + 1000 * 60000000))"
  using token_lifetimes [where vp = verify_equal and enc = "\<lambda>p :: payload. p" and db = example_db
      and username = "''a@example.com''" and password = "''pw-a''" and r = 0
      and ?t1.0 = 5 and ?t2.0 = 6 and ?t3.0 = 7 and ?t4.0 = 8 and dec = Some and t = refresh_a]
    login_a [of 0 5 6 7 8] refresh_a_ok [of 5 6 7 8]
  by (simp add: timedelta_minutes_def)

text \<open>
  The claim C6 as stated fails twice: the refresh token of a login expires 1440 minutes
  after issuance, not 1000, and the access token of the refresh path expires 15 minutes
  after issuance (the default of \<open>create_access_token\<close>), not 30.
\<close>

theorem token_lifetimes_counterexample:
  "\<not> isl (generate_token verify_equal (\<lambda>p :: payload. p) example_db ''a@example.com'' ''pw-a''
            0 0 0 0 0)
   \<and> refresh_token (fst (projr (generate_token verify_equal (\<lambda>p :: payload. p) example_db
         ''a@example.com'' ''pw-a'' 0 0 0 0 0))) ''exp''
       = Some (Datetime (0 + timedelta_minutes 1440))
   \<and> refresh_token (fst (projr (generate_token verify_equal (\<lambda>p :: payload. p) example_db
         ''a@example.com'' ''pw-a'' 0 0 0 0 0))) ''exp''
       \<noteq> Some (Datetime (0 + timedelta_minutes 1000))
   \<and> \<not> isl (refresh_user_token Some (\<lambda>p :: payload. p) refresh_a example_db 0 0 0 0)
   \<and> access_token (projr (refresh_user_token Some (\<lambda>p :: payload. p) refresh_a example_db
         0 0 0 0)) ''exp''
       = Some (Datetime (0 + timedelta_minutes 15))
   \<and> access_token (projr (refresh_user_token Some (\<lambda>p :: payload. p) refresh_a example_db
         0 0 0 0)) ''exp''
       \<noteq> Some (Datetime (0 + timedelta_minutes 30))"
  using login_a [of 0 0 0 0 0] refresh_a_ok [of 0 0 0 0]
  by (simp add: create_access_token_def create_refresh_token_def timedelta_minutes_def
      REFRESH_TOKEN_EXPIRATION_def ACCESS_TOKEN_EXPIRE_MINUTES_def)

section \<open>The OTP reset of a login\<close>

lemma randint_range:
  assumes "a \<le> b"
  shows "a \<le> randint a b r \<and> randint a b r \<le> b"
proof -
  have pos: "0 < nat (b - a + 1)" using assms by simp
  have "r mod nat (b - a + 1) < nat (b - a + 1)" using pos by (rule mod_less_divisor)
  then have "int (r mod nat (b - a + 1)) < b - a + 1" using assms by linarith
  then show ?thesis by (simp add: randint_def)
qed

text \<open>
  C7 (as amended). A successful login sets the user's persisted OTP to the value drawn by
  \<open>randint(100000, 999999)\<close>, a six-digit number, and commits it before the token pair is
  built. With user ids a primary key, the committed row is what a lookup by the login's email
  finds afterwards; activation with any OTP other than the drawn value then fails with 401,
  and activation with the drawn value succeeds. So activation with the pre-login OTP fails
  after the login exactly when the drawn value differs from it.
\<close>

theorem login_resets_otp:
  assumes g: "generate_token vp enc db username password r t1 t2 t3 t4 = Inr (tok, db')"
  shows "\<exists>u. find_user (Str username) db = Inr (Some u) \<and> is_active u
           \<and> db' = commit_user db (u\<lparr>otp := Some (randint 100000 999999 r)\<rparr>)
           \<and> 100000 \<le> randint 100000 999999 r \<and> randint 100000 999999 r \<le> 999999
           \<and> (distinct (map user_id (users db)) \<longrightarrow>
                find_user (Str username) db'
                  = Inr (Some (u\<lparr>otp := Some (randint 100000 999999 r)\<rparr>))
                \<and> (\<forall>x. x \<noteq> randint 100000 999999 r \<longrightarrow>
                      activate_user username x db' = Inl (HTTPException 401 ''User is not found''))
                \<and> \<not> isl (activate_user username (randint 100000 999999 r) db'))"
proof -
  let ?n = "randint 100000 999999 r"
  obtain u where u: "authenticate_user vp db username password = Inr (Some u)" "is_active u"
    using generate_token_success [OF g] by blast
  let ?u' = "u\<lparr>otp := Some ?n\<rparr>"
  have f: "find_user (Str username) db = Inr (Some u)"
    using authenticate_user_found [OF u(1)] by simp
  have db': "db' = commit_user db ?u'"
    using g generate_token_active [OF u, of enc r t1 t2 t3 t4] by simp
  have rng: "100000 \<le> ?n \<and> ?n \<le> 999999"
    by (rule randint_range) simp
  have after: "find_user (Str username) db' = Inr (Some ?u')
      \<and> (\<forall>x. x \<noteq> ?n \<longrightarrow>
            activate_user username x db' = Inl (HTTPException 401 ''User is not found''))
      \<and> \<not> isl (activate_user username ?n db')"
    if d: "distinct (map user_id (users db))"
  proof -
    have f': "find_user (Str username) db' = Inr (Some ?u')"
      unfolding db' by (rule find_user_commit [OF d f]) simp_all
    have "activate_user username x db' = Inl (HTTPException 401 ''User is not found'')"
      if "x \<noteq> ?n" for x
      using that by (intro activate_user_mismatch [OF f']) simp
    moreover have "\<not> isl (activate_user username ?n db')"
      using activate_user_match [OF f', of ?n] by simp
    ultimately show ?thesis using f' by blast
  qed
  show ?thesis
    using f u(2) db' rng after by blast
qed

theorem login_resets_otp_witness:
  "generate_token verify_equal (\<lambda>p :: payload. p) example_db ''a@example.com'' ''pw-a'' 0 0 0 0 0
     = Inr (\<lparr>access_token =
                create_access_token (\<lambda>p :: payload. p) [''sub'' \<mapsto> Str ''a@example.com'']
                  (Some (timedelta_minutes ACCESS_TOKEN_EXPIRE_MINUTES)) 0 0,
              refresh_token =
                create_refresh_token (\<lambda>p :: payload. p) [''sub'' \<mapsto> Str ''a@example.com'']
                  (Some (timedelta_minutes REFRESH_TOKEN_EXPIRATION)) 0 0,
              token_type = ''bearer''\<rparr>,
            commit_user example_db (user_a\<lparr>otp := Some 100000\<rparr>))
   \<and> otp user_a = Some 123456
   \<and> distinct (map user_id (users example_db))
   \<and> find_user (Str ''a@example.com'') (commit_user example_db (user_a\<lparr>otp := Some 100000\<rparr>))
       = Inr (Some (user_a\<lparr>otp := Some 100000\<rparr>))
   \<and> activate_user ''a@example.com'' 123456
         (commit_user example_db (user_a\<lparr>otp := Some 100000\<rparr>))
       = Inl (HTTPException 401 ''User is not found'')"
proof -
  have n: "randint 100000 999999 0 = 100000" by (simp add: randint_def)
  have g: "generate_token verify_equal (\<lambda>p :: payload. p) example_db ''a@example.com'' ''pw-a''
             0 0 0 0 0
     = Inr (\<lparr>access_token =
                create_access_token (\<lambda>p :: payload. p) [''sub'' \<mapsto> Str ''a@example.com'']
                  (Some (timedelta_minutes ACCESS_TOKEN_EXPIRE_MINUTES)) 0 0,
              refresh_token =
                create_refresh_token (\<lambda>p :: payload. p) [''sub'' \<mapsto> Str ''a@example.com'']
                  (Some (timedelta_minutes REFRESH_TOKEN_EXPIRATION)) 0 0,
              token_type = ''bearer''\<rparr>,
            commit_user example_db (user_a\<lparr>otp := Some 100000\<rparr>))"
    using login_a [of 0 0 0 0 0] by (simp add: n)
  have d: "distinct (map user_id (users example_db))"
    by (simp add: example_db_def user_a_def user_b_def)
  have o: "otp user_a = Some 123456" by (simp add: user_a_def)
  show ?thesis
    using login_resets_otp [OF g] g d o find_user_a by (auto simp: n)
qed

text \<open>
  The claim C7 as stated fails when the draw repeats the stored value: user A holds the OTP
  123456, the login draws 123456 again, the store is unchanged and activation with the
  pre-login OTP still succeeds.
\<close>

theorem login_resets_otp_counterexample:
  "randint 100000 999999 23456 = 123456
   \<and> otp user_a = Some 123456
   \<and> \<not> isl (generate_token verify_equal (\<lambda>p :: payload. p) example_db ''a@example.com'' ''pw-a''
              23456 0 0 0 0)
   \<and> snd (projr (generate_token verify_equal (\<lambda>p :: payload. p) example_db ''a@example.com''
              ''pw-a'' 23456 0 0 0 0)) = example_db
   \<and> activate_user ''a@example.com'' 123456 example_db = Inr (user_a, example_db)"
proof -
  have n: "randint 100000 999999 23456 = 123456" by (simp add: randint_def)
  have same: "commit_user example_db (user_a\<lparr>otp := Some 123456\<rparr>) = example_db"
    by (simp add: commit_user_def example_db_def user_a_def user_b_def)
  have act: "activate_user ''a@example.com'' 123456 example_db = Inr (user_a, example_db)"
    by (simp add: activate_user_def user_activation_def commit_user_def Let_def
        example_db_def user_a_def user_b_def)
  have o: "otp user_a = Some 123456" by (simp add: user_a_def)
  have g: "generate_token verify_equal (\<lambda>p :: payload. p) example_db ''a@example.com'' ''pw-a''
             23456 0 0 0 0
     = Inr (\<lparr>access_token =
                create_access_token (\<lambda>p :: payload. p) [''sub'' \<mapsto> Str ''a@example.com'']
                  (Some (timedelta_minutes ACCESS_TOKEN_EXPIRE_MINUTES)) 0 0,
              refresh_token =
                create_refresh_token (\<lambda>p :: payload. p) [''sub'' \<mapsto> Str ''a@example.com'']
                  (Some (timedelta_minutes REFRESH_TOKEN_EXPIRATION)) 0 0,
              token_type = ''bearer''\<rparr>, example_db)"
    using login_a [of 23456 0 0 0 0] by (simp add: n same)
  show ?thesis
    by (simp add: n g o act)
qed

section \<open>GET /contact/{id}\<close>

text \<open>
  C8. The claim: \<open>GET /contact/{id}\<close> returns the contact when it exists and the bare
  status value 303 when it does not. The code: the router calls the repository's
  \<open>get_contact\<close> without the \<open>user_id\<close> argument, so every request ends in TypeError,
  whether the contact exists (id 1) or not (id 7); neither the contact nor the status value
  is ever returned.
\<close>

theorem route_get_contact_type_error:
  "route_get_contact cid db token = Inl TypeError
   \<and> get_contact 1 example_db 1 = Inr (Some contact_ann)
   \<and> route_get_contact 1 example_db access_a = Inl TypeError
   \<and> route_get_contact 7 example_db access_a = Inl TypeError"
  by (simp add: route_get_contact_def call_get_contact_def get_contact_def owned_by_def
      example_db_def contact_ann_def contact_bob_def)

section \<open>Editing and deleting contacts\<close>

lemma edit_loop_Some:
  "edit_loop (Some c) (body_items body) =
     Inr (Some (c\<lparr>first_name := (case edit_first_name body of None \<Rightarrow> first_name c
                                     | Some v \<Rightarrow> Some v),
                  last_name := (case edit_last_name body of None \<Rightarrow> last_name c
                                    | Some v \<Rightarrow> Some v),
                  contact_email := (case edit_email body of None \<Rightarrow> contact_email c
                                    | Some v \<Rightarrow> Some v),
                  birth_date := (case edit_birth_date body of None \<Rightarrow> birth_date c
                                    | Some v \<Rightarrow> v)\<rparr>))"
  by (cases "edit_first_name body"; cases "edit_last_name body"; cases "edit_email body";
      cases "edit_birth_date body") (simp_all add: body_items_def)

lemma edit_loop_None:
  "edit_loop None xs = (if \<exists>a. Some a \<in> set xs then Inl AttributeError else Inr None)"
proof (induction xs)
  case Nil
  show ?case by simp
next
  case (Cons x xs)
  then show ?case by (cases x) auto
qed

lemma get_contact_missing:
  assumes "\<not> (\<exists>c\<in>set (contacts db). contact_id c = cid \<and> created_by c = uid)"
  shows "get_contact cid db uid = Inr None"
proof -
  have "filter (\<lambda>c. contact_id c = cid) (owned_by uid db) = []"
    using assms by (auto simp: filter_empty_conv owned_by_set)
  then show ?thesis by (simp add: get_contact_def)
qed

lemma edit_contact_missing:
  "get_contact cid db uid = Inr None \<Longrightarrow> edit_contact cid body db uid now = Inl AttributeError"
  by (simp add: edit_contact_def edit_loop_None)

lemma delete_contact_missing:
  "get_contact cid db uid = Inr None \<Longrightarrow> delete_contact cid db uid = Inl UnmappedInstanceError"
  by (simp add: delete_contact_def)

text \<open>
  C9. Editing an existing contact of the requesting user with a partial-update patch
  overwrites exactly the fields whose patch value is not None (first name, last name, email,
  birth date), sets \<open>modified_at\<close> to the current time, and leaves every field whose patch
  value is None and the fields id, owner and \<open>created_at\<close> as they were. The commit
  replaces the row of that id by the edited contact and leaves the other rows and the users
  table unchanged.
\<close>

theorem edit_contact_frame:
  assumes "get_contact cid db uid = Inr (Some c)"
  shows "\<exists>c'. edit_contact cid body db uid now = Inr (c', commit_contact db c')
           \<and> first_name c' = (case edit_first_name body of None \<Rightarrow> first_name c
                                | Some v \<Rightarrow> Some v)
           \<and> last_name c' = (case edit_last_name body of None \<Rightarrow> last_name c
                                | Some v \<Rightarrow> Some v)
           \<and> contact_email c' = (case edit_email body of None \<Rightarrow> contact_email c
                                | Some v \<Rightarrow> Some v)
           \<and> birth_date c' = (case edit_birth_date body of None \<Rightarrow> birth_date c
                                | Some v \<Rightarrow> v)
           \<and> contact_modified_at c' = now
           \<and> contact_id c' = contact_id c
           \<and> created_by c' = created_by c
           \<and> contact_created_at c' = contact_created_at c
           \<and> contacts (commit_contact db c')
               = map (\<lambda>r. if contact_id r = contact_id c then c' else r) (contacts db)
           \<and> users (commit_contact db c') = users db"
proof -
  let ?c' = "c\<lparr>first_name := (case edit_first_name body of None \<Rightarrow> first_name c
                                     | Some v \<Rightarrow> Some v),
                  last_name := (case edit_last_name body of None \<Rightarrow> last_name c
                                    | Some v \<Rightarrow> Some v),
                  contact_email := (case edit_email body of None \<Rightarrow> contact_email c
                                    | Some v \<Rightarrow> Some v),
                  birth_date := (case edit_birth_date body of None \<Rightarrow> birth_date c
                                    | Some v \<Rightarrow> v),
                  contact_modified_at := now\<rparr>"
  have e: "edit_contact cid body db uid now = Inr (?c', commit_contact db ?c')"
    using assms by (simp add: edit_contact_def edit_loop_Some Let_def)
  have "contacts (commit_contact db ?c')
          = map (\<lambda>r. if contact_id r = contact_id c then ?c' else r) (contacts db)"
    by (simp add: commit_contact_def)
  moreover have "users (commit_contact db ?c') = users db"
    by (simp add: commit_contact_def)
  ultimately show ?thesis
    using e by (intro exI [of _ ?c']) simp
qed

lemma get_contact_ann: "get_contact 1 example_db 1 = Inr (Some contact_ann)"
  by (simp add: get_contact_def owned_by_def example_db_def contact_ann_def contact_bob_def)

theorem edit_contact_frame_witness:
  "get_contact 1 example_db 1 = Inr (Some contact_ann)
   \<and> edit_contact 1 \<lparr>edit_first_name = Some ''Anna'', edit_last_name = None,
                      edit_email = None, edit_birth_date = Some 104\<rparr> example_db 1 5
       = Inr (contact_ann\<lparr>first_name := Some ''Anna'', birth_date := 104,
                           contact_modified_at := 5\<rparr>,
              \<lparr>users = [user_a, user_b],
               contacts = [contact_ann\<lparr>first_name := Some ''Anna'', birth_date := 104,
                                        contact_modified_at := 5\<rparr>, contact_bob]\<rparr>)"
  using edit_contact_frame [OF get_contact_ann,
      of "\<lparr>edit_first_name = Some ''Anna'', edit_last_name = None,
           edit_email = None, edit_birth_date = Some 104\<rparr>" 5]
    get_contact_ann
  by (auto simp: commit_contact_def example_db_def contact_ann_def contact_bob_def)

text \<open>
  C10. When no contact with the given id is owned by the requesting user, the owner-scoped
  lookup returns None; \<open>edit_contact\<close> then sets an attribute of None and ends in
  AttributeError, \<open>delete_contact\<close> hands None to \<open>Session.delete\<close> and ends in
  UnmappedInstanceError. Neither is a structured NotFound response, the routes pass the
  error on unhandled, and the store is left as it was.
\<close>

theorem edit_delete_missing_contact:
  assumes "\<not> (\<exists>c\<in>set (contacts db). contact_id c = cid \<and> created_by c = uid)"
  shows "get_contact cid db uid = Inr None
         \<and> edit_contact cid body db uid now = Inl AttributeError
         \<and> delete_contact cid db uid = Inl UnmappedInstanceError
         \<and> \<not> not_found AttributeError \<and> \<not> not_found UnmappedInstanceError
         \<and> store_after db (edit_contact cid body db uid now) = db
         \<and> store_after db (delete_contact cid db uid) = db
         \<and> (\<forall>u. get_current_user dec token db = Inr u \<and> user_id u = uid \<longrightarrow>
               route_edit_contact dec cid body db token now = Inl AttributeError
               \<and> route_delete_contact dec cid db token = Inl UnmappedInstanceError)"
proof -
  have g: "get_contact cid db uid = Inr None"
    using assms by (rule get_contact_missing)
  have e: "edit_contact cid body db uid now = Inl AttributeError"
    using g by (rule edit_contact_missing)
  have d: "delete_contact cid db uid = Inl UnmappedInstanceError"
    using g by (rule delete_contact_missing)
  show ?thesis
    using g e d by (auto simp: store_after_def route_edit_contact_def route_delete_contact_def)
qed

theorem edit_delete_missing_contact_witness:
  "\<not> (\<exists>c\<in>set (contacts example_db). contact_id c = 2 \<and> created_by c = 1)
   \<and> contact_bob \<in> set (contacts example_db) \<and> contact_id contact_bob = 2
   \<and> get_contact 2 example_db 1 = Inr None
   \<and> edit_contact 2 \<lparr>edit_first_name = Some ''Rob'', edit_last_name = None,
                      edit_email = None, edit_birth_date = None\<rparr> example_db 1 5
       = Inl AttributeError
   \<and> edit_contact 2 \<lparr>edit_first_name = None, edit_last_name = None,
                      edit_email = None, edit_birth_date = None\<rparr> example_db 1 5
       = Inl AttributeError
   \<and> delete_contact 2 example_db 1 = Inl UnmappedInstanceError
   \<and> get_current_user Some access_a example_db = Inr user_a
   \<and> user_id user_a = 1
   \<and> route_edit_contact Some 2 \<lparr>edit_first_name = Some ''Rob'', edit_last_name = None,
                      edit_email = None, edit_birth_date = None\<rparr> example_db access_a 5
       = Inl AttributeError
   \<and> route_delete_contact Some 2 example_db access_a = Inl UnmappedInstanceError"
proof -
  have h: "\<not> (\<exists>c\<in>set (contacts example_db). contact_id c = 2 \<and> created_by c = 1)"
    by (simp add: example_db_def contact_ann_def contact_bob_def)
  have b: "contact_bob \<in> set (contacts example_db)" "contact_id contact_bob = 2"
    by (simp_all add: example_db_def contact_bob_def)
  have u: "user_id user_a = 1" by (simp add: user_a_def)
  show ?thesis
    using h b u get_current_user_a
      edit_delete_missing_contact [OF h, where dec = Some and token = access_a and now = 5
        and body = "\<lparr>edit_first_name = Some ''Rob'', edit_last_name = None,
                      edit_email = None, edit_birth_date = None\<rparr>"]
      edit_delete_missing_contact [OF h, where dec = Some and token = access_a and now = 5
        and body = "\<lparr>edit_first_name = None, edit_last_name = None,
                      edit_email = None, edit_birth_date = None\<rparr>"]
    by simp
qed

end
